theory Spec2Isabelle
  imports Complex_Main "HOL-Library.Sublist" "HOL-Library.Char_ord" "HOL-Library.List_Lexorder"
begin

section \<open>Data model\<close>

text \<open>
  The dashboard (\<^verbatim>\<open>app.py\<close>) works on a pandas DataFrame read from a spreadsheet.
  A cell holds a number, a string, or nothing (pandas' NaN/None).  A float in a cell is
  the real number it denotes; no cell holds an infinity, and NaN is \<open>Missing\<close>.  What
  pandas computes from floats in float64 is not computed here: it is a parameter.
  Python strings are byte lists in UTF-8.
\<close>

datatype cell = Num real | Str string | Missing

type_synonym row = "(string \<times> cell) list"

record dataframe =
  columns :: "string list"
  rows :: "row list"

datatype error = KeyError | TypeError | ValueError | OSError | AttributeError

definition cell_of :: "row \<Rightarrow> string \<Rightarrow> cell" where
  "cell_of r c = (case map_of r c of Some v \<Rightarrow> v | None \<Rightarrow> Missing)"

text \<open>\<^verbatim>\<open>df[col]\<close>: the column as a series; a name that is not a column raises KeyError.\<close>

definition getitem :: "dataframe \<Rightarrow> string \<Rightarrow> error + cell list" where
  "getitem df c =
     (if c \<in> set (columns df) then Inr (map (\<lambda>r. cell_of r c) (rows df)) else Inl KeyError)"

section \<open>Column resolver\<close>

text \<open>
  \<^verbatim>\<open>
  def pick_col(df, candidates):
      for c in candidates:
          if c in df.columns:
              return c
      return None
  \<close>
\<close>

fun pick_col :: "dataframe \<Rightarrow> string list \<Rightarrow> string option" where
  "pick_col df [] = None"
| "pick_col df (c # cs) = (if c \<in> set (columns df) then Some c else pick_col df cs)"

datatype role = Area | Bedrooms | Energy | Transport | Price | PricePerArea | LnPrice

text \<open>The candidate lists of lines 70 to 77, in the order written there.\<close>

fun candidates :: "role \<Rightarrow> string list" where
  "candidates Area =
     [''Area'', ''area'', ''neighborhood'', ''Neighbourhood'', ''quartiere'', ''Quartiere'']"
| "candidates Bedrooms = [''Bedroom'', ''Bedrooms'', ''bedroom'', ''bedrooms'', ''beds'']"
| "candidates Energy =
     [''Energy_score'', ''energy_score'', ''energy'', ''EnergyScore'', ''energyScore'']"
| "candidates Transport =
     [''transport'', ''Transport'', ''transport_score'', ''Transport_score'']"
| "candidates Price = [''price'', ''Price'']"
| "candidates PricePerArea =
     [''priceperm'', ''price_per_m2'', ''price_per_sqm'', ''PricePerm'', ''price_per_meter'']"
| "candidates LnPrice = [''ln_price'', ''lnprice'', ''Ln_price'']"

definition resolve :: "dataframe \<Rightarrow> role \<Rightarrow> string option" where
  "resolve df r = pick_col df (candidates r)"

section \<open>Numeric coercion\<close>

text \<open>
  \<^verbatim>\<open>
  def to_num(s):
      return pd.to_numeric(s, errors="coerce")
  \<close>
  A number stays, a missing cell becomes NaN (\<open>None\<close>), and a string becomes what pandas
  reads in it.  The string reader belongs to pandas, so it is the parameter \<open>parse\<close>:
  \<open>parse s = None\<close> when \<open>s\<close> is no numeral.
\<close>

fun coerce :: "(string \<Rightarrow> real option) \<Rightarrow> cell \<Rightarrow> real option" where
  "coerce parse (Num x) = Some x"
| "coerce parse (Str s) = parse s"
| "coerce parse Missing = None"

definition to_num :: "(string \<Rightarrow> real option) \<Rightarrow> cell list \<Rightarrow> real option list" where
  "to_num parse s = map (coerce parse) s"

text \<open>\<^verbatim>\<open>Series.dropna()\<close> on a numeric series.\<close>

fun dropna :: "real option list \<Rightarrow> real list" where
  "dropna [] = []"
| "dropna (None # s) = dropna s"
| "dropna (Some x # s) = x # dropna s"

text \<open>
  \<^verbatim>\<open>Series.mean()\<close> and \<^verbatim>\<open>Series.median()\<close> are pandas' and compute in float64: sums and
  quotients are rounded, and a sum may overflow.  They are parameters of the functions
  that call them, of type \<open>real list \<Rightarrow> pyfloat\<close>: the result is a float64 value, that is
  a finite number, an infinity or NaN.
\<close>

datatype pyfloat = Finite real | PosInf | NegInf | NaN

section \<open>Number formatting\<close>

text \<open>
  Python's format specifications \<^verbatim>\<open>,.0f\<close>, \<^verbatim>\<open>.3f\<close>, \<^verbatim>\<open>.4f\<close> (floats) and
  \<^verbatim>\<open>,\<close> (integers).  A float is rounded to the precision from its exact value, ties to
  even; the sign is the sign of the value itself, so a small negative value prints as
  \<^verbatim>\<open>-0.000\<close>.  The float \<^verbatim>\<open>-0.0\<close> is the real 0 here and prints without a sign.
\<close>

definition digit_char :: "nat \<Rightarrow> char" where
  "digit_char d = ''0123456789'' ! d"

fun digits :: "nat \<Rightarrow> string" where
  "digits n = (if n < 10 then [digit_char n] else digits (n div 10) @ [digit_char (n mod 10)])"

declare digits.simps [simp del]

function group3 :: "string \<Rightarrow> string" where
  "group3 s = (if length s \<le> 3 then s
               else group3 (take (length s - 3) s) @ '','' @ drop (length s - 3) s)"
  by pat_completeness auto
termination
  by (relation "measure length") auto

declare group3.simps [simp del]

definition round_half_even :: "real \<Rightarrow> int" where
  "round_half_even q =
     (let f = \<lfloor>q\<rfloor>; r = q - of_int f
      in if r < 1 / 2 then f else if 1 / 2 < r then f + 1 else if even f then f else f + 1)"

definition zero_pad :: "nat \<Rightarrow> string \<Rightarrow> string" where
  "zero_pad w s = replicate (w - length s) (CHR ''0'') @ s"

definition format_f :: "bool \<Rightarrow> nat \<Rightarrow> real \<Rightarrow> string" where
  "format_f grouping prec x =
     (let m = nat (round_half_even (\<bar>x\<bar> * 10 ^ prec));
          ip = digits (m div 10 ^ prec);
          fp = zero_pad prec (digits (m mod 10 ^ prec))
      in (if x < 0 then ''-'' else []) @ (if grouping then group3 ip else ip) @
         (if prec = 0 then [] else ''.'' @ fp))"

text \<open>\<^verbatim>\<open>f"{n:,}"\<close> for a length.\<close>

definition format_count :: "nat \<Rightarrow> string" where
  "format_count n = group3 (digits n)"

section \<open>Derived metrics\<close>

text \<open>The sentinel of lines 50 and 57, an em-dash (U+2014), in UTF-8.\<close>

definition em_dash :: string where
  "em_dash = [CHR 0xE2, CHR 0x80, CHR 0x94]"

text \<open>
  The f-string of lines 49 and 56, \<^verbatim>\<open>f"{m:,.0f}" if m > 10 else f"{m:.3f}"\<close>, on a float64
  value.  Plus infinity is greater than 10 and prints as \<^verbatim>\<open>inf\<close> under \<^verbatim>\<open>,.0f\<close>; minus
  infinity and NaN are not greater than 10 and print as \<^verbatim>\<open>-inf\<close> and \<^verbatim>\<open>nan\<close> under
  \<^verbatim>\<open>.3f\<close>.
\<close>

definition format_stat :: "pyfloat \<Rightarrow> string" where
  "format_stat m =
     (case m of
        Finite x \<Rightarrow> if x > 10 then format_f True 0 x else format_f False 3 x
      | PosInf \<Rightarrow> ''inf''
      | NegInf \<Rightarrow> ''-inf''
      | NaN \<Rightarrow> ''nan'')"

text \<open>
  \<^verbatim>\<open>
  def safe_mean(df, col):
      if col and col in df.columns:
          v = to_num(df[col]).dropna()
          if not v.empty:
              return f"{v.mean():,.0f}" if v.mean() > 10 else f"{v.mean():.3f}"
      return "\u2014"
  \<close>
  \<^verbatim>\<open>safe_median\<close> is the same with \<^verbatim>\<open>v.median()\<close>.  The column argument is None or a
  string; None and the empty string are falsy.  The parameters \<open>mean\<close> and \<open>median\<close> are
  pandas' \<^verbatim>\<open>Series.mean\<close> and \<^verbatim>\<open>Series.median\<close>.
\<close>

definition safe_mean ::
  "(string \<Rightarrow> real option) \<Rightarrow> (real list \<Rightarrow> pyfloat) \<Rightarrow> dataframe \<Rightarrow> string option \<Rightarrow>
     error + string" where
  "safe_mean parse mean df col =
     (case col of
        None \<Rightarrow> Inr em_dash
      | Some c \<Rightarrow>
          if c \<noteq> [] \<and> c \<in> set (columns df) then
            (case getitem df c of
               Inl e \<Rightarrow> Inl e
             | Inr s \<Rightarrow>
                 let v = dropna (to_num parse s)
                 in if v \<noteq> [] then Inr (format_stat (mean v)) else Inr em_dash)
          else Inr em_dash)"

definition safe_median ::
  "(string \<Rightarrow> real option) \<Rightarrow> (real list \<Rightarrow> pyfloat) \<Rightarrow> dataframe \<Rightarrow> string option \<Rightarrow>
     error + string" where
  "safe_median parse median df col =
     (case col of
        None \<Rightarrow> Inr em_dash
      | Some c \<Rightarrow>
          if c \<noteq> [] \<and> c \<in> set (columns df) then
            (case getitem df c of
               Inl e \<Rightarrow> Inl e
             | Inr s \<Rightarrow>
                 let v = dropna (to_num parse s)
                 in if v \<noteq> [] then Inr (format_stat (median v)) else Inr em_dash)
          else Inr em_dash)"

text \<open>
  The formatting rule as the specification words it, with the absolute value of the
  statistic compared to 10.  It is not the program's rule; it is here to be compared
  with \<open>format_stat\<close>.
\<close>

definition spec_format_stat :: "real \<Rightarrow> string" where
  "spec_format_stat x = (if \<bar>x\<bar> > 10 then format_f True 0 x else format_f False 3 x)"

text \<open>The numeric values of a column: \<^verbatim>\<open>to_num(df[col]).dropna()\<close> for a column that exists.\<close>

definition numeric_values :: "(string \<Rightarrow> real option) \<Rightarrow> dataframe \<Rightarrow> string \<Rightarrow> real list" where
  "numeric_values parse df c = List.map_filter (coerce parse) (map (\<lambda>r. cell_of r c) (rows df))"

section \<open>Sidebar filters\<close>

text \<open>
  The widgets are Streamlit's.  What the user has chosen in a widget is the parameter
  \<open>ui\<close>: each field maps the arguments of the call (label, options or bounds, default)
  to the value the call returns.  The sidebar is the list of the widgets rendered so
  far, each with the value it returned.
\<close>

record ui =
  multiselect :: "string \<Rightarrow> cell list \<Rightarrow> cell list \<Rightarrow> cell list"
  slider_int :: "string \<Rightarrow> int \<Rightarrow> int \<Rightarrow> int \<times> int \<Rightarrow> int \<times> int"
  slider_float :: "string \<Rightarrow> real \<Rightarrow> real \<Rightarrow> real \<times> real \<Rightarrow> real \<times> real"

datatype widget =
    Header string
  | Multiselect string "cell list" "cell list" "cell list"
  | SliderInt string int int "int \<times> int" "int \<times> int"
  | SliderFloat string real real "real \<times> real" "real \<times> real"
  | Markdown string
  | Metric string string
  | DownloadButton string dataframe string string

text \<open>\<^verbatim>\<open>Series.dropna()\<close> and \<^verbatim>\<open>Series.unique()\<close> (first occurrences, in order) on cells.\<close>

definition dropna_cells :: "cell list \<Rightarrow> cell list" where
  "dropna_cells s = filter (\<lambda>x. x \<noteq> Missing) s"

definition unique :: "cell list \<Rightarrow> cell list" where
  "unique s = rev (remdups (rev s))"

text \<open>
  Python's \<^verbatim>\<open>sorted\<close> on a list of cells without missing values: numbers sort by value,
  strings by code point, and a list with both raises TypeError, since a number and a
  string do not compare.
\<close>

fun is_num :: "cell \<Rightarrow> bool" where
  "is_num (Num x) = True"
| "is_num c = False"

fun is_str :: "cell \<Rightarrow> bool" where
  "is_str (Str s) = True"
| "is_str c = False"

fun num_val :: "cell \<Rightarrow> real" where
  "num_val (Num x) = x"
| "num_val c = 0"

fun str_val :: "cell \<Rightarrow> string" where
  "str_val (Str s) = s"
| "str_val c = []"

definition py_sorted :: "cell list \<Rightarrow> error + cell list" where
  "py_sorted xs =
     (if list_all is_num xs then Inr (map Num (sort (map num_val xs)))
      else if list_all is_str xs then Inr (map Str (sort (map str_val xs)))
      else Inl TypeError)"

text \<open>\<^verbatim>\<open>Series.isin(values)\<close>, \<^verbatim>\<open>Series.between(lo, hi)\<close> (inclusive; NaN is in no range)
  and \<^verbatim>\<open>df[mask]\<close> for a boolean mask over the rows.\<close>

definition isin :: "cell list \<Rightarrow> cell list \<Rightarrow> bool list" where
  "isin s vals = map (\<lambda>x. x \<in> set vals) s"

definition between :: "real option list \<Rightarrow> real \<Rightarrow> real \<Rightarrow> bool list" where
  "between s lo hi = map (\<lambda>v. case v of None \<Rightarrow> False | Some x \<Rightarrow> lo \<le> x \<and> x \<le> hi) s"

definition getitem_mask :: "dataframe \<Rightarrow> bool list \<Rightarrow> dataframe" where
  "getitem_mask df keep = df\<lparr>rows := map fst (filter snd (zip (rows df) keep))\<rparr>"

text \<open>\<^verbatim>\<open>int(x)\<close> of a float truncates towards zero.\<close>

definition py_int :: "real \<Rightarrow> int" where
  "py_int x = (if 0 \<le> x then \<lfloor>x\<rfloor> else \<lceil>x\<rceil>)"

text \<open>
  Lines 87 to 92:
  \<^verbatim>\<open>
  if area_col:
      areas = sorted([x for x in filtered[area_col].dropna().unique().tolist()])
      default_areas = areas[:10] if len(areas) > 10 else areas
      selected_areas = st.sidebar.multiselect("Area", areas, default=default_areas)
      if selected_areas:
          filtered = filtered[filtered[area_col].isin(selected_areas)]
  \<close>
\<close>

definition area_block ::
  "ui \<Rightarrow> string option \<Rightarrow> widget list \<times> dataframe \<Rightarrow> error + widget list \<times> dataframe" where
  "area_block u area_col st =
     (case st of (sidebar, filtered) \<Rightarrow>
        (case area_col of
           None \<Rightarrow> Inr (sidebar, filtered)
         | Some c \<Rightarrow>
             if c = [] then Inr (sidebar, filtered)
             else
               (case getitem filtered c of
                  Inl e \<Rightarrow> Inl e
                | Inr s \<Rightarrow>
                    (case py_sorted (unique (dropna_cells s)) of
                       Inl e \<Rightarrow> Inl e
                     | Inr areas \<Rightarrow>
                         let default_areas = (if length areas > 10 then take 10 areas else areas);
                             selected_areas = multiselect u ''Area'' areas default_areas;
                             sidebar' = sidebar @
                               [Multiselect ''Area'' areas default_areas selected_areas]
                         in if selected_areas \<noteq> [] then
                              (case getitem filtered c of
                                 Inl e \<Rightarrow> Inl e
                               | Inr s' \<Rightarrow>
                                   Inr (sidebar', getitem_mask filtered (isin s' selected_areas)))
                            else Inr (sidebar', filtered)))))"

text \<open>
  Lines 95 to 101:
  \<^verbatim>\<open>
  if bed_col:
      b = to_num(filtered[bed_col]).dropna()
      if not b.empty:
          bmin, bmax = int(b.min()), int(b.max())
          if bmin != bmax:
              br = st.sidebar.slider("Bedroom range", bmin, bmax, (bmin, bmax))
              filtered = filtered[to_num(filtered[bed_col]).between(br[0], br[1])]
  \<close>
\<close>

definition bedroom_block ::
  "(string \<Rightarrow> real option) \<Rightarrow> ui \<Rightarrow> string option \<Rightarrow> widget list \<times> dataframe \<Rightarrow>
     error + widget list \<times> dataframe" where
  "bedroom_block parse u bed_col st =
     (case st of (sidebar, filtered) \<Rightarrow>
        (case bed_col of
           None \<Rightarrow> Inr (sidebar, filtered)
         | Some c \<Rightarrow>
             if c = [] then Inr (sidebar, filtered)
             else
               (case getitem filtered c of
                  Inl e \<Rightarrow> Inl e
                | Inr s \<Rightarrow>
                    let b = dropna (to_num parse s)
                    in if b \<noteq> [] then
                         let bmin = py_int (Min (set b)); bmax = py_int (Max (set b))
                         in if bmin \<noteq> bmax then
                              let br = slider_int u ''Bedroom range'' bmin bmax (bmin, bmax);
                                  sidebar' = sidebar @
                                    [SliderInt ''Bedroom range'' bmin bmax (bmin, bmax) br]
                              in (case getitem filtered c of
                                    Inl e \<Rightarrow> Inl e
                                  | Inr s' \<Rightarrow>
                                      Inr (sidebar',
                                        getitem_mask filtered
                                          (between (to_num parse s')
                                             (of_int (fst br)) (of_int (snd br)))))
                            else Inr (sidebar, filtered)
                       else Inr (sidebar, filtered))))"

text \<open>
  Lines 104 to 110:
  \<^verbatim>\<open>
  if energy_col:
      e = to_num(filtered[energy_col]).dropna()
      if not e.empty:
          emin, emax = float(e.min()), float(e.max())
          if emin != emax:
              er = st.sidebar.slider("Energy_score range", float(emin), float(emax),
                                     (float(emin), float(emax)))
              filtered = filtered[to_num(filtered[energy_col]).between(er[0], er[1])]
  \<close>
\<close>

definition energy_block ::
  "(string \<Rightarrow> real option) \<Rightarrow> ui \<Rightarrow> string option \<Rightarrow> widget list \<times> dataframe \<Rightarrow>
     error + widget list \<times> dataframe" where
  "energy_block parse u energy_col st =
     (case st of (sidebar, filtered) \<Rightarrow>
        (case energy_col of
           None \<Rightarrow> Inr (sidebar, filtered)
         | Some c \<Rightarrow>
             if c = [] then Inr (sidebar, filtered)
             else
               (case getitem filtered c of
                  Inl e \<Rightarrow> Inl e
                | Inr s \<Rightarrow>
                    let e = dropna (to_num parse s)
                    in if e \<noteq> [] then
                         let emin = Min (set e); emax = Max (set e)
                         in if emin \<noteq> emax then
                              let er = slider_float u ''Energy_score range'' emin emax (emin, emax);
                                  sidebar' = sidebar @
                                    [SliderFloat ''Energy_score range'' emin emax (emin, emax) er]
                              in (case getitem filtered c of
                                    Inl e \<Rightarrow> Inl e
                                  | Inr s' \<Rightarrow>
                                      Inr (sidebar',
                                        getitem_mask filtered
                                          (between (to_num parse s') (fst er) (snd er))))
                            else Inr (sidebar, filtered)
                       else Inr (sidebar, filtered))))"

text \<open>Lines 113 to 119, the same block for the transport column and its label.\<close>

definition transport_block ::
  "(string \<Rightarrow> real option) \<Rightarrow> ui \<Rightarrow> string option \<Rightarrow> widget list \<times> dataframe \<Rightarrow>
     error + widget list \<times> dataframe" where
  "transport_block parse u transport_col st =
     (case st of (sidebar, filtered) \<Rightarrow>
        (case transport_col of
           None \<Rightarrow> Inr (sidebar, filtered)
         | Some c \<Rightarrow>
             if c = [] then Inr (sidebar, filtered)
             else
               (case getitem filtered c of
                  Inl e \<Rightarrow> Inl e
                | Inr s \<Rightarrow>
                    let t = dropna (to_num parse s)
                    in if t \<noteq> [] then
                         let tmin = Min (set t); tmax = Max (set t)
                         in if tmin \<noteq> tmax then
                              let tr = slider_float u ''Transport range (optional)'' tmin tmax
                                         (tmin, tmax);
                                  sidebar' = sidebar @
                                    [SliderFloat ''Transport range (optional)'' tmin tmax
                                       (tmin, tmax) tr]
                              in (case getitem filtered c of
                                    Inl e \<Rightarrow> Inl e
                                  | Inr s' \<Rightarrow>
                                      Inr (sidebar',
                                        getitem_mask filtered
                                          (between (to_num parse s') (fst tr) (snd tr))))
                            else Inr (sidebar, filtered)
                       else Inr (sidebar, filtered))))"

text \<open>
  Lines 83 to 131: the header, the four blocks in turn on the state (sidebar, filtered),
  then the row counter and the download button.  The columns are those detected on lines
  70 to 73.  The CSV export is pandas'; the button carries the table it exports.
\<close>

definition down_arrow :: string where
  "down_arrow = [CHR 0xE2, CHR 0xAC, CHR 0x87, CHR 0xEF, CHR 0xB8, CHR 0x8F]"

definition sidebar_filters ::
  "(string \<Rightarrow> real option) \<Rightarrow> ui \<Rightarrow> dataframe \<Rightarrow> error + widget list \<times> dataframe" where
  "sidebar_filters parse u df =
     (let area_col = resolve df Area;
          bed_col = resolve df Bedrooms;
          energy_col = resolve df Energy;
          transport_col = resolve df Transport
      in case area_block u area_col ([Header ''Filters''], df) of
           Inl e \<Rightarrow> Inl e
         | Inr st1 \<Rightarrow>
             (case bedroom_block parse u bed_col st1 of
                Inl e \<Rightarrow> Inl e
              | Inr st2 \<Rightarrow>
                  (case energy_block parse u energy_col st2 of
                     Inl e \<Rightarrow> Inl e
                   | Inr st3 \<Rightarrow>
                       (case transport_block parse u transport_col st3 of
                          Inl e \<Rightarrow> Inl e
                        | Inr (sidebar, filtered) \<Rightarrow>
                            Inr (sidebar @
                                 [Markdown ''---'',
                                  Metric ''Rows after filters''
                                    (format_count (length (rows filtered))),
                                  DownloadButton (down_arrow @ '' Download filtered data (CSV)'')
                                    filtered ''milan_filtered.csv'' ''text/csv''],
                                 filtered)))))"

text \<open>
  The mask of lines 101, 110 and 119 at one row: the coerced value of the row is a number
  and lies in the closed range.
\<close>

definition passes :: "(string \<Rightarrow> real option) \<Rightarrow> string \<Rightarrow> real \<Rightarrow> real \<Rightarrow> row \<Rightarrow> bool" where
  "passes parse c lo hi r =
     (case coerce parse (cell_of r c) of None \<Rightarrow> False | Some x \<Rightarrow> lo \<le> x \<and> x \<le> hi)"

text \<open>
  A rendered widget whose value makes the code filter the table: the multiselect with a
  non-empty selection (line 91) and every slider (lines 101, 110, 119).
\<close>

fun is_constraint :: "widget \<Rightarrow> bool" where
  "is_constraint (Multiselect l opts d sel) = (sel \<noteq> [])"
| "is_constraint (SliderInt l lo hi d v) = True"
| "is_constraint (SliderFloat l lo hi d v) = True"
| "is_constraint w = False"

text \<open>
  What every block does to the state: it keeps the columns, keeps a filtered sublist of
  the rows, only adds widgets to the sidebar, and leaves the table as it is unless a
  widget it adds is a constraint.
\<close>

definition narrows :: "widget list \<times> dataframe \<Rightarrow> widget list \<times> dataframe \<Rightarrow> bool" where
  "narrows st st' =
     ((\<exists>P. snd st' = (snd st)\<lparr>rows := filter P (rows (snd st))\<rparr>) \<and>
      (\<exists>ws. fst st' = fst st @ ws \<and> (list_ex is_constraint ws \<or> snd st' = snd st)))"

section \<open>The page\<close>

text \<open>
  What the script reads from outside: the directory of the script, which paths are files
  (\<^verbatim>\<open>os.path.isfile\<close>), the spreadsheet pandas reads (\<^verbatim>\<open>pd.read_excel\<close>), the text of a
  file, the value \<^verbatim>\<open>json.load\<close> returns for a file, the text of an exception
  (\<^verbatim>\<open>str(e)\<close>), the two string readers: pandas' numeric one, used by \<open>to_num\<close>, and
  Python's \<^verbatim>\<open>float(str)\<close>, and pandas' \<^verbatim>\<open>Series.mean\<close> and \<^verbatim>\<open>Series.median\<close>.  JSON
  numbers are reals.
\<close>

datatype json =
    JNull
  | JBool bool
  | JNum real
  | JStr string
  | JArr "json list"
  | JObj "(string \<times> json) list"

record env =
  base_dir :: string
  isfile :: "string \<Rightarrow> bool"
  read_excel :: "string \<Rightarrow> error + dataframe"
  read_text :: "string \<Rightarrow> error + string"
  load_json :: "string \<Rightarrow> error + json"
  exc_str :: "error \<Rightarrow> string"
  parse_numeric :: "string \<Rightarrow> real option"
  parse_float :: "string \<Rightarrow> real option"
  series_mean :: "real list \<Rightarrow> pyfloat"
  series_median :: "real list \<Rightarrow> pyfloat"

text \<open>\<^verbatim>\<open>os.path.join(a, b)\<close> for a relative \<open>b\<close>, and the paths of lines 16 to 23.\<close>

definition path_join :: "string \<Rightarrow> string \<Rightarrow> string" where
  "path_join a b = (if a = [] \<or> last a = CHR ''/'' then a @ b else a @ ''/'' @ b)"

definition DATA_PATH :: "env \<Rightarrow> string" where
  "DATA_PATH e = path_join (base_dir e) ''data_final.xlsx''"

definition MAP_HTML_PATH :: "env \<Rightarrow> string" where
  "MAP_HTML_PATH e = path_join (base_dir e) ''milan_area_map_lnprice.html''"

definition METRICS_JSON_PATH :: "env \<Rightarrow> string" where
  "METRICS_JSON_PATH e = path_join (base_dir e) ''model_metrics.json''"

definition SHAP_SUMMARY_BAR_PNG :: "env \<Rightarrow> string" where
  "SHAP_SUMMARY_BAR_PNG e = path_join (base_dir e) ''shap_summary_bar.png''"

definition SHAP_BEESWARM_PNG :: "env \<Rightarrow> string" where
  "SHAP_BEESWARM_PNG e = path_join (base_dir e) ''shap_beeswarm.png''"

definition SHAP_DEP_TRANSPORT_PNG :: "env \<Rightarrow> string" where
  "SHAP_DEP_TRANSPORT_PNG e = path_join (base_dir e) ''shap_dependence_transport.png''"

text \<open>
  \<^verbatim>\<open>
  def load_data(path):
      return pd.read_excel(path)

  def exists(path):
      return os.path.isfile(path)
  \<close>
  The cache of \<^verbatim>\<open>load_data\<close> keeps the value of the first call for a path; within one run
  of the script the function is called once.
\<close>

definition load_data :: "env \<Rightarrow> string \<Rightarrow> error + dataframe" where
  "load_data e path = read_excel e path"

definition exists_file :: "env \<Rightarrow> string \<Rightarrow> bool" where
  "exists_file e path = isfile e path"

text \<open>
  The page is the list of the elements rendered, each with the container it is rendered
  in.  Pictographs and other characters outside ASCII are written as their UTF-8 bytes.
\<close>

datatype place =
    Page
  | TabExplore
  | Kpi nat
  | LeftCol
  | RightCol
  | TabModel
  | MetricCol nat
  | ShapTab nat
  | TabAbout

datatype element =
    PageConfig string string
  | Title string
  | Caption string
  | ErrorMsg string
  | Success string
  | Warning string
  | Info string
  | Subheader string
  | MarkdownE string
  | MetricE string string
  | Tabs "string list"
  | Columns "real list"
  | DataframeE dataframe
  | Html string nat bool
  | BarChart "real list"
  | Image string

text \<open>A run ends with the page rendered, with the page as it is when \<^verbatim>\<open>st.stop()\<close> halts
  the script, or with an exception no handler catches.\<close>

datatype outcome =
    Rendered "widget list" "(place \<times> element) list"
  | Stopped "(place \<times> element) list"
  | Raised error

definition cityscape :: string where
  "cityscape = [CHR 0xF0, CHR 0x9F, CHR 0x8F, CHR 0x99, CHR 0xEF, CHR 0xB8, CHR 0x8F]"

definition cross_mark :: string where
  "cross_mark = [CHR 0xE2, CHR 0x9D, CHR 0x8C]"

definition bar_chart_sign :: string where
  "bar_chart_sign = [CHR 0xF0, CHR 0x9F, CHR 0x93, CHR 0x8A]"

definition robot :: string where
  "robot = [CHR 0xF0, CHR 0x9F, CHR 0xA4, CHR 0x96]"

definition info_sign :: string where
  "info_sign = [CHR 0xE2, CHR 0x84, CHR 0xB9, CHR 0xEF, CHR 0xB8, CHR 0x8F]"

definition check_mark :: string where
  "check_mark = [CHR 0xE2, CHR 0x9C, CHR 0x85]"

definition page_sign :: string where
  "page_sign = [CHR 0xF0, CHR 0x9F, CHR 0x93, CHR 0x84]"

definition world_map :: string where
  "world_map = [CHR 0xF0, CHR 0x9F, CHR 0x97, CHR 0xBA, CHR 0xEF, CHR 0xB8, CHR 0x8F]"

definition magnifier :: string where
  "magnifier = [CHR 0xF0, CHR 0x9F, CHR 0x94, CHR 0x8E]"

definition superscript_two :: string where
  "superscript_two = [CHR 0xC2, CHR 0xB2]"

text \<open>Lines 10 to 12.\<close>

definition page_top :: "(place \<times> element) list" where
  "page_top =
     [(Page, PageConfig ''Milan Housing Dashboard'' ''wide''),
      (Page, Title (cityscape @ '' Milan Housing Dashboard'')),
      (Page, Caption ''Explore listings + map + model metrics + SHAP explainability'')]"

text \<open>\<^verbatim>\<open>df.head(n)\<close>.\<close>

definition head :: "nat \<Rightarrow> dataframe \<Rightarrow> dataframe" where
  "head n df = df\<lparr>rows := take n (rows df)\<rparr>"

text \<open>
  Lines 143 to 177, the Explore tab.  The results of \<open>safe_median\<close> and \<open>safe_mean\<close>
  have the type of a call that may raise, and reading the map file may raise.  The histogram's binning is pandas'; the chart
  carries the values it bins.
\<close>

definition explore_tab ::
  "env \<Rightarrow> dataframe \<Rightarrow> dataframe \<Rightarrow> error + (place \<times> element) list" where
  "explore_tab e df filtered =
     (let price_col = resolve df Price;
          priceperm_col = resolve df PricePerArea;
          ln_price_col = resolve df LnPrice
      in case safe_median (parse_numeric e) (series_median e) filtered price_col of
           Inl err \<Rightarrow> Inl err
         | Inr median_price \<Rightarrow>
        (case safe_median (parse_numeric e) (series_median e) filtered priceperm_col of
           Inl err \<Rightarrow> Inl err
         | Inr median_priceperm \<Rightarrow>
        (case safe_mean (parse_numeric e) (series_mean e) filtered ln_price_col of
           Inl err \<Rightarrow> Inl err
         | Inr mean_ln_price \<Rightarrow>
        (case (if exists_file e (MAP_HTML_PATH e) then
                 (case read_text e (MAP_HTML_PATH e) of
                    Inl err \<Rightarrow> Inl err
                  | Inr map_html \<Rightarrow>
                      Inr [(RightCol, Html map_html 560 True),
                           (RightCol, Caption ''Map rendered from milan_area_map_lnprice.html'')])
               else Inr [(RightCol, Warning ''Map file not found: milan_area_map_lnprice.html'')]) of
           Inl err \<Rightarrow> Inl err
         | Inr map_part \<Rightarrow>
        (case (case price_col of
                 None \<Rightarrow> Inr []
               | Some c \<Rightarrow>
                   if c \<noteq> [] \<and> c \<in> set (columns filtered) then
                     (case getitem filtered c of
                        Inl err \<Rightarrow> Inl err
                      | Inr s \<Rightarrow>
                          let hist_data = dropna (to_num (parse_numeric e) s)
                          in Inr ((TabExplore, MarkdownE ''### Price distribution (filtered)'') #
                                  (if length hist_data > 0 then [(TabExplore, BarChart hist_data)]
                                   else [(TabExplore, Info ''No numeric price values to plot.'')])))
                   else Inr []) of
           Inl err \<Rightarrow> Inl err
         | Inr chart_part \<Rightarrow>
             Inr ([(TabExplore,
                    Success (check_mark @ '' Dataset loaded | Rows: '' @
                      format_count (length (rows df)) @ '' | Columns: '' @
                      digits (length (columns df)))),
                   (TabExplore, Columns [1, 1, 1, 1]),
                   (Kpi 1, MetricE ''Listings (filtered)'' (format_count (length (rows filtered)))),
                   (Kpi 2, MetricE ''Median price'' median_price),
                   (Kpi 3, MetricE (''Median price / m'' @ superscript_two) median_priceperm),
                   (Kpi 4, MetricE ''Mean ln_price'' mean_ln_price),
                   (TabExplore, MarkdownE ''### Preview & Map''),
                   (TabExplore, Columns [1.25, 1]),
                   (LeftCol, Subheader (page_sign @ '' Dataset preview'')),
                   (LeftCol, DataframeE (head 50 filtered)),
                   (RightCol, Subheader (world_map @ '' Milan map (saved Folium HTML)''))]
                  @ map_part @ chart_part))))))"

text \<open>
  Lines 188 to 211.  Inside the \<^verbatim>\<open>try\<close>: the file is read as JSON, then
  \<^verbatim>\<open>float(metrics.get(key, 0))\<close> for the three keys in turn; \<^verbatim>\<open>.get\<close> exists on a JSON
  object only (a later binding of a key wins), and \<^verbatim>\<open>float\<close> takes a number, a boolean
  or a string that reads as a float.  Every exception there is caught by
  \<^verbatim>\<open>except Exception\<close>.
\<close>

fun metrics_get :: "json \<Rightarrow> string \<Rightarrow> error + json" where
  "metrics_get (JObj kvs) k = Inr (case map_of (rev kvs) k of Some v \<Rightarrow> v | None \<Rightarrow> JNum 0)"
| "metrics_get j k = Inl AttributeError"

fun py_float :: "(string \<Rightarrow> real option) \<Rightarrow> json \<Rightarrow> error + real" where
  "py_float rd (JNum x) = Inr x"
| "py_float rd (JBool b) = Inr (if b then 1 else 0)"
| "py_float rd (JStr s) = (case rd s of Some x \<Rightarrow> Inr x | None \<Rightarrow> Inl ValueError)"
| "py_float rd j = Inl TypeError"

definition metric_value :: "env \<Rightarrow> json \<Rightarrow> string \<Rightarrow> error + real" where
  "metric_value e metrics k =
     (case metrics_get metrics k of Inl err \<Rightarrow> Inl err | Inr v \<Rightarrow> py_float (parse_float e) v)"

definition read_metrics :: "env \<Rightarrow> error + real \<times> real \<times> real" where
  "read_metrics e =
     (case load_json e (METRICS_JSON_PATH e) of
        Inl err \<Rightarrow> Inl err
      | Inr metrics \<Rightarrow>
          (case metric_value e metrics ''rmse'' of
             Inl err \<Rightarrow> Inl err
           | Inr rmse \<Rightarrow>
               (case metric_value e metrics ''mae'' of
                  Inl err \<Rightarrow> Inl err
                | Inr mae \<Rightarrow>
                    (case metric_value e metrics ''r2'' of
                       Inl err \<Rightarrow> Inl err
                     | Inr r2 \<Rightarrow> Inr (rmse, mae, r2)))))"

definition no_metrics :: "(place \<times> element) list" where
  "no_metrics =
     [(MetricCol 1, MetricE ''RMSE'' em_dash),
      (MetricCol 2, MetricE ''MAE'' em_dash),
      (MetricCol 3, MetricE (''R'' @ superscript_two) em_dash)]"

definition model_metrics :: "env \<Rightarrow> (place \<times> element) list" where
  "model_metrics e =
     (if exists_file e (METRICS_JSON_PATH e) then
        (case read_metrics e of
           Inr (rmse, mae, r2) \<Rightarrow>
             [(MetricCol 1, MetricE ''RMSE'' (format_f False 4 rmse)),
              (MetricCol 2, MetricE ''MAE'' (format_f False 4 mae)),
              (MetricCol 3, MetricE (''R'' @ superscript_two) (format_f False 4 r2)),
              (TabModel, Caption ''Metrics loaded from model_metrics.json'')]
         | Inl err \<Rightarrow>
             no_metrics @
             [(TabModel, Warning (''Couldn't read model_metrics.json: '' @ exc_str e err))])
      else
        no_metrics @
        [(TabModel, Info ''Create model_metrics.json in your notebook to show metrics here.'')])"

text \<open>Lines 213 to 234, the SHAP images, each in its own tab.\<close>

definition shap_image :: "env \<Rightarrow> nat \<Rightarrow> string \<Rightarrow> string \<Rightarrow> (place \<times> element) list" where
  "shap_image e i path name =
     (if exists_file e path then [(ShapTab i, Image path)]
      else [(ShapTab i, Info (''Missing: '' @ name))])"

definition shap_section :: "env \<Rightarrow> (place \<times> element) list" where
  "shap_section e =
     [(TabModel, MarkdownE ''---''),
      (TabModel, Subheader (magnifier @ '' SHAP (Explainability)'')),
      (TabModel, Tabs [''Summary bar'', ''Beeswarm'', ''Dependence (transport)''])]
     @ shap_image e 0 (SHAP_SUMMARY_BAR_PNG e) ''shap_summary_bar.png''
     @ shap_image e 1 (SHAP_BEESWARM_PNG e) ''shap_beeswarm.png''
     @ shap_image e 2 (SHAP_DEP_TRANSPORT_PNG e) ''shap_dependence_transport.png''"

text \<open>Lines 240 to 256, the About tab: the stripped text, line by line.\<close>

definition about_text :: string where
  "about_text =
     ''### What is this?'' @ [CHR 0x0A] @
     ''A compact dashboard to explore Milan housing listings, visualize a Folium map, and show an XGBoost model with SHAP explainability.'' @ [CHR 0x0A] @
     [CHR 0x0A] @
     ''### Tech stack'' @ [CHR 0x0A] @
     ''- Streamlit (dashboard)'' @ [CHR 0x0A] @
     ''- Pandas (data)'' @ [CHR 0x0A] @
     ''- Folium (map exported as HTML)'' @ [CHR 0x0A] @
     ''- XGBoost (regression)'' @ [CHR 0x0A] @
     ''- SHAP (model explainability)'' @ [CHR 0x0A] @
     [CHR 0x0A] @
     ''### Notes'' @ [CHR 0x0A] @
     ''This dashboard is designed as a **portfolio-friendly** project (fast, clean, and easy to deploy).''"

text \<open>
  The script, top to bottom: the page top; the check of the data file, which halts the
  run (lines 63 to 65); the load and the column detection; the sidebar; the three tabs.
\<close>

definition app :: "env \<Rightarrow> ui \<Rightarrow> outcome" where
  "app e u =
     (if \<not> exists_file e (DATA_PATH e) then
        Stopped (page_top @
          [(Page, ErrorMsg (cross_mark @ '' data file not found: '' @ DATA_PATH e))])
      else
        (case load_data e (DATA_PATH e) of
           Inl err \<Rightarrow> Raised err
         | Inr df \<Rightarrow>
             (case sidebar_filters (parse_numeric e) u df of
                Inl err \<Rightarrow> Raised err
              | Inr (sidebar, filtered) \<Rightarrow>
                  (case explore_tab e df filtered of
                     Inl err \<Rightarrow> Raised err
                   | Inr explore \<Rightarrow>
                       Rendered sidebar
                         (page_top @
                          [(Page, Tabs [bar_chart_sign @ '' Explore'', robot @ '' Model'',
                                        info_sign @ '' About''])] @
                          explore @
                          [(TabModel, Subheader (robot @ '' Model results (XGBoost)'')),
                           (TabModel, Columns [1, 1, 1])] @
                          model_metrics e @
                          shap_section e @
                          [(TabAbout, MarkdownE about_text)])))))"

section \<open>Sample tables\<close>

definition df_prices :: dataframe where
  "df_prices = \<lparr>columns = [''Area'', ''price''],
     rows = [[(''Area'', Str ''X''), (''price'', Num 1000)],
             [(''Area'', Str ''Y''), (''price'', Str ''n/a'')],
             [(''Area'', Str ''Z''), (''price'', Missing)],
             [(''Area'', Str ''W''), (''price'', Num 1468)]]\<rparr>"

definition df_negative :: dataframe where
  "df_negative = \<lparr>columns = [''ln_price''], rows = [[(''ln_price'', Num (- 1234))]]\<rparr>"

definition df_beds :: dataframe where
  "df_beds = \<lparr>columns = [''Area'', ''Bedroom'', ''price''],
     rows = [[(''Area'', Str ''X''), (''Bedroom'', Num 2), (''price'', Num 500000)],
             [(''Area'', Str ''Y''), (''Bedroom'', Num 5), (''price'', Num 15)],
             [(''Area'', Str ''X''), (''Bedroom'', Str ''studio''), (''price'', Num 900)],
             [(''Area'', Missing), (''Bedroom'', Missing), (''price'', Missing)]]\<rparr>"

definition df_half_beds :: dataframe where
  "df_half_beds = \<lparr>columns = [''Bedroom''],
     rows = [[(''Bedroom'', Num 1)], [(''Bedroom'', Num (5 / 2))]]\<rparr>"

definition df_near_beds :: dataframe where
  "df_near_beds = \<lparr>columns = [''Bedroom''],
     rows = [[(''Bedroom'', Num 2)], [(''Bedroom'', Num (5 / 2))]]\<rparr>"

definition df_flat :: dataframe where
  "df_flat = \<lparr>columns = [''c''],
     rows = [[(''c'', Num 3)], [(''c'', Str ''?'')], [(''c'', Num 3)]]\<rparr>"

text \<open>Sample users: one leaves every widget at its default, one clears the area
  selection, one selects area X and the bedroom range 2 to 3.\<close>

definition ui_default :: ui where
  "ui_default = \<lparr>multiselect = (\<lambda>l opts d. d), slider_int = (\<lambda>l lo hi d. d),
     slider_float = (\<lambda>l lo hi d. d)\<rparr>"

definition ui_clear :: ui where
  "ui_clear = \<lparr>multiselect = (\<lambda>l opts d. []), slider_int = (\<lambda>l lo hi d. d),
     slider_float = (\<lambda>l lo hi d. d)\<rparr>"

definition ui_pick :: ui where
  "ui_pick = \<lparr>multiselect = (\<lambda>l opts d. [Str ''X'']), slider_int = (\<lambda>l lo hi d. (2, 3)),
     slider_float = (\<lambda>l lo hi d. d)\<rparr>"

definition no_parse :: "string \<Rightarrow> real option" where
  "no_parse s = None"

text \<open>
  Samples of the two pandas parameters, for the sample tables: the mean and the median in
  exact arithmetic.  They are pandas' results where every sum and quotient taken is a
  float64 value as it stands, which is so for the sample columns (a few small integers);
  they are not pandas' results in general.
\<close>

definition exact_mean :: "real list \<Rightarrow> pyfloat" where
  "exact_mean v = (if v = [] then NaN else Finite (sum_list v / real (length v)))"

definition exact_median :: "real list \<Rightarrow> pyfloat" where
  "exact_median v =
     (let s = sort v; n = length s
      in if n = 0 then NaN
         else if odd n then Finite (s ! (n div 2))
         else Finite ((s ! (n div 2 - 1) + s ! (n div 2)) / 2))"

text \<open>A table with an energy and a transport column, each with a value that is no
  number, and a user who sets the energy range to 4 to 10 and leaves the rest.\<close>

definition df_scores :: dataframe where
  "df_scores = \<lparr>columns = [''Energy_score'', ''transport''],
     rows = [[(''Energy_score'', Num 2), (''transport'', Num 1)],
             [(''Energy_score'', Num 9), (''transport'', Missing)],
             [(''Energy_score'', Str ''n/a''), (''transport'', Num 3)],
             [(''Energy_score'', Num 5), (''transport'', Num 2)]]\<rparr>"

definition ui_scores :: ui where
  "ui_scores = \<lparr>multiselect = (\<lambda>l opts d. d), slider_int = (\<lambda>l lo hi d. d),
     slider_float = (\<lambda>l lo hi d. if l = ''Energy_score range'' then (4, 10) else d)\<rparr>"

text \<open>The table of the specification's end-to-end scenario, and a user who keeps the
  default areas and sets the bedroom range to 2 to 3.\<close>

definition df_scenario :: dataframe where
  "df_scenario = \<lparr>columns = [''Area'', ''Bedroom'', ''price''],
     rows = [[(''Area'', Str ''X''), (''Bedroom'', Num 2), (''price'', Num 500000)],
             [(''Area'', Str ''Y''), (''Bedroom'', Num 5), (''price'', Num 15)]]\<rparr>"

definition ui_beds :: ui where
  "ui_beds = \<lparr>multiselect = (\<lambda>l opts d. d), slider_int = (\<lambda>l lo hi d. (2, 3)),
     slider_float = (\<lambda>l lo hi d. d)\<rparr>"

text \<open>The environment with another state of the metrics file: whether it is there, and
  what reading JSON gives.\<close>

definition with_metrics :: "env \<Rightarrow> bool \<Rightarrow> (string \<Rightarrow> error + json) \<Rightarrow> env" where
  "with_metrics e b j = e\<lparr>isfile := (isfile e)(METRICS_JSON_PATH e := b), load_json := j\<rparr>"

text \<open>Sample environments: the data file alone is there and reads as the scenario table;
  no file is there; the metrics file is there too, with a string where a number should
  be.\<close>

definition env_data_only :: env where
  "env_data_only =
     \<lparr>base_dir = ''/app'',
      isfile = (\<lambda>p. p = ''/app/data_final.xlsx''),
      read_excel = (\<lambda>p. Inr df_scenario),
      read_text = (\<lambda>p. Inl OSError),
      load_json = (\<lambda>p. Inl OSError),
      exc_str = (\<lambda>x. ''unreadable''),
      parse_numeric = no_parse,
      parse_float = no_parse,
      series_mean = exact_mean,
      series_median = exact_median\<rparr>"

definition env_empty :: env where
  "env_empty = env_data_only\<lparr>isfile := (\<lambda>p. False)\<rparr>"

definition env_bad_metrics :: env where
  "env_bad_metrics =
     env_data_only\<lparr>isfile := (isfile env_data_only)(METRICS_JSON_PATH env_data_only := True),
                    load_json := (\<lambda>p. Inr (JObj [(''rmse'', JStr ''n/a'')]))\<rparr>"

section \<open>Properties of the column resolver\<close>

lemma pick_col_None: "pick_col df cs = None \<longleftrightarrow> (\<forall>c \<in> set cs. c \<notin> set (columns df))"
  by (induction cs) auto

lemma pick_col_Some:
  "pick_col df cs = Some c \<Longrightarrow>
     \<exists>i < length cs. cs ! i = c \<and> c \<in> set (columns df) \<and> (\<forall>j < i. cs ! j \<notin> set (columns df))"
proof (induction cs)
  case Nil
  then show ?case by simp
next
  case (Cons a cs)
  show ?case
  proof (cases "a \<in> set (columns df)")
    case True
    with Cons.prems have "a = c" by simp
    with True show ?thesis by (intro exI [of _ 0]) simp
  next
    case False
    with Cons.prems have "pick_col df cs = Some c" by simp
    from Cons.IH [OF this] obtain i where i: "i < length cs" "cs ! i = c"
      "c \<in> set (columns df)" "\<forall>j < i. cs ! j \<notin> set (columns df)" by blast
    have "\<forall>j < Suc i. (a # cs) ! j \<notin> set (columns df)"
      using False i(4) by (auto simp: nth_Cons split: nat.splits)
    with i show ?thesis by (intro exI [of _ "Suc i"]) simp
  qed
qed

text \<open>
  C3. For every table and role, the resolver returns the first candidate, in the role's
  fixed priority order, that is exactly (case-sensitively) the name of a column, and
  None when no candidate is a column name.  A table with the columns Quartiere and price
  binds the area role to Quartiere.
\<close>

theorem pick_col_first_match:
  "(resolve df r = None \<longleftrightarrow> (\<forall>c \<in> set (candidates r). c \<notin> set (columns df))) \<and>
   (\<forall>c. resolve df r = Some c \<longrightarrow>
      (\<exists>i < length (candidates r). candidates r ! i = c \<and> c \<in> set (columns df) \<and>
         (\<forall>j < i. candidates r ! j \<notin> set (columns df)))) \<and>
   resolve \<lparr>columns = [''Quartiere'', ''price''], rows = rs\<rparr> Area = Some ''Quartiere''"
  unfolding resolve_def
  by (intro conjI allI impI pick_col_None pick_col_Some) simp_all

theorem pick_col_first_match_witness:
  "resolve \<lparr>columns = [''AREA'', ''Price'', ''area''], rows = []\<rparr> Bedrooms = None \<and>
   resolve \<lparr>columns = [''AREA'', ''Price'', ''area''], rows = []\<rparr> Area = Some ''area'' \<and>
   (\<exists>i < length (candidates Area). candidates Area ! i = ''area'' \<and>
      (\<forall>j < i. candidates Area ! j \<notin> {''AREA'', ''Price'', ''area''}))"
  using pick_col_first_match [of "\<lparr>columns = [''AREA'', ''Price'', ''area''], rows = []\<rparr>" Area]
  by (simp add: resolve_def)

section \<open>Properties of the number formatting\<close>

lemma dropna_to_num: "dropna (to_num parse s) = List.map_filter (coerce parse) s"
  unfolding to_num_def
  by (induction s) (auto simp: List.map_filter_simps split: option.splits)

lemma digit_char_in: "d < 10 \<Longrightarrow> digit_char d \<in> set ''0123456789''"
  unfolding digit_char_def by (rule nth_mem) simp

lemma digits_chars: "set (digits n) \<subseteq> set ''0123456789''"
proof (induction n rule: digits.induct)
  case (1 n)
  show ?case
  proof (cases "n < 10")
    case True
    then show ?thesis using digit_char_in [of n] by (subst digits.simps) simp
  next
    case False
    have "n mod 10 < 10" by simp
    from digit_char_in [OF this] 1 [OF False] False show ?thesis
      by (subst digits.simps) simp
  qed
qed

lemma digits_nonempty: "digits n \<noteq> []"
  by (subst digits.simps) simp

lemma length_digits: "0 < k \<Longrightarrow> n < 10 ^ k \<Longrightarrow> length (digits n) \<le> k"
proof (induction n arbitrary: k rule: digits.induct)
  case (1 n)
  show ?case
  proof (cases "n < 10")
    case True
    with 1(2) show ?thesis by (subst digits.simps) simp
  next
    case False
    from False 1(3) have "k \<noteq> 1" by auto
    with 1(2) obtain j where j: "k = Suc j" "0 < j" by (cases k) auto
    with 1(3) have "n div 10 < 10 ^ j" by (simp add: less_mult_imp_div_less mult.commute)
    from 1(1) [OF False j(2) this] j False show ?thesis
      by (subst digits.simps) simp
  qed
qed

lemma group3_filter: "filter (\<lambda>ch. ch \<noteq> CHR '','') (group3 s) = filter (\<lambda>ch. ch \<noteq> CHR '','') s"
proof (induction s rule: group3.induct)
  case (1 s)
  show ?case
  proof (cases "length s \<le> 3")
    case True
    then show ?thesis by (subst group3.simps) simp
  next
    case False
    have "filter (\<lambda>ch. ch \<noteq> CHR '','') (group3 s) =
          filter (\<lambda>ch. ch \<noteq> CHR '','') (take (length s - 3) s) @
          filter (\<lambda>ch. ch \<noteq> CHR '','') (drop (length s - 3) s)"
      using False 1 [OF False] by (subst group3.simps) simp
    also have "\<dots> = filter (\<lambda>ch. ch \<noteq> CHR '','') (take (length s - 3) s @ drop (length s - 3) s)"
      by (simp only: filter_append)
    also have "\<dots> = filter (\<lambda>ch. ch \<noteq> CHR '','') s"
      by (simp only: append_take_drop_id)
    finally show ?thesis .
  qed
qed

lemma group3_chars: "set (group3 s) \<subseteq> insert (CHR '','') (set s)"
proof (induction s rule: group3.induct)
  case (1 s)
  show ?case
  proof (cases "length s \<le> 3")
    case True
    then show ?thesis by (subst group3.simps) auto
  next
    case False
    have "set (take (length s - 3) s) \<subseteq> set s" "set (drop (length s - 3) s) \<subseteq> set s"
      by (auto dest: in_set_takeD in_set_dropD)
    with 1 [OF False] False show ?thesis
      by (subst group3.simps) auto
  qed
qed

lemma round_half_even_nearest: "\<bar>real_of_int (round_half_even q) - q\<bar> \<le> 1 / 2"
  unfolding round_half_even_def Let_def by (auto simp: abs_le_iff)

lemma round_half_even_nonneg: "0 \<le> q \<Longrightarrow> 0 \<le> round_half_even q"
  unfolding round_half_even_def Let_def by auto

lemma format_f_grouped0: 
  "0 \<le> x \<Longrightarrow> format_f True 0 x = group3 (digits (nat (round_half_even x)))"
  by (simp add: format_f_def)

lemma format_f_plain3:
  "\<exists>ip fp. format_f False 3 x = (if x < 0 then ''-'' else []) @ ip @ ''.'' @ fp \<and>
     ip \<noteq> [] \<and> length fp = 3 \<and> set ip \<union> set fp \<subseteq> set ''0123456789''"
proof -
  define m where "m = nat (round_half_even (\<bar>x\<bar> * 10 ^ 3))"
  let ?ip = "digits (m div 10 ^ 3)" and ?fp = "zero_pad 3 (digits (m mod 10 ^ 3))"
  have len: "length (digits (m mod 10 ^ 3)) \<le> 3"
    by (rule length_digits) simp_all
  have "format_f False 3 x = (if x < 0 then ''-'' else []) @ ?ip @ ''.'' @ ?fp"
    by (simp add: format_f_def m_def Let_def)
  moreover have "length ?fp = 3" using len by (simp add: zero_pad_def)
  moreover have "set ?fp \<subseteq> set ''0123456789''"
    using digits_chars [of "m mod 10 ^ 3"] by (auto simp: zero_pad_def)
  moreover note digits_chars [of "m div 10 ^ 3"] digits_nonempty [of "m div 10 ^ 3"]
  ultimately show ?thesis by (intro exI [of _ ?ip] exI [of _ ?fp]) simp
qed

section \<open>Properties of the derived metrics\<close>

lemma zero_pad_short: "length s < w \<Longrightarrow> zero_pad w s = CHR ''0'' # zero_pad (w - 1) s"
  by (cases w) (simp_all add: zero_pad_def Suc_diff_le)

lemma zero_pad_full: "w \<le> length s \<Longrightarrow> zero_pad w s = s"
  by (simp add: zero_pad_def)

lemmas fmt_eval = format_f_def round_half_even_def zero_pad_short zero_pad_full digits.simps
  digit_char_def group3.simps Let_def

lemma getitem_present:
  "c \<in> set (columns df) \<Longrightarrow> getitem df c = Inr (map (\<lambda>r. cell_of r c) (rows df))"
  by (simp add: getitem_def)

lemma safe_mean_present:
  "c \<noteq> [] \<Longrightarrow> c \<in> set (columns df) \<Longrightarrow>
   safe_mean parse mean df (Some c) =
     (if numeric_values parse df c \<noteq> [] then Inr (format_stat (mean (numeric_values parse df c)))
      else Inr em_dash)"
  by (simp add: safe_mean_def getitem_present dropna_to_num numeric_values_def)

lemma safe_median_present:
  "c \<noteq> [] \<Longrightarrow> c \<in> set (columns df) \<Longrightarrow>
   safe_median parse median df (Some c) =
     (if numeric_values parse df c \<noteq> [] then Inr (format_stat (median (numeric_values parse df c)))
      else Inr em_dash)"
  by (simp add: safe_median_def getitem_present dropna_to_num numeric_values_def)

text \<open>The sentinel is not the rendering of any statistic: a rendering has only digits,
  a sign, a comma, a point, or is one of \<^verbatim>\<open>inf\<close>, \<^verbatim>\<open>-inf\<close>, \<^verbatim>\<open>nan\<close>.\<close>

lemma zero_pad_chars: "set (zero_pad w s) \<subseteq> insert (CHR ''0'') (set s)"
  by (auto simp: zero_pad_def)

lemma format_f_chars:
  assumes "set ''-,.0123456789'' \<subseteq> A"
  shows "set (format_f g p x) \<subseteq> A"
proof -
  have k: "CHR ''-'' \<in> A" "CHR '','' \<in> A" "CHR ''.'' \<in> A" "CHR ''0'' \<in> A"
    using assms by simp_all
  have "set ''0123456789'' \<subseteq> A" using assms by simp
  then have d: "set (digits n) \<subseteq> A" for n
    using digits_chars [of n] by (rule order_trans [rotated])
  define m where "m = nat (round_half_even (\<bar>x\<bar> * 10 ^ p))"
  have b: "set (group3 (digits (m div 10 ^ p))) \<subseteq> A"
    using group3_chars [of "digits (m div 10 ^ p)"] d [of "m div 10 ^ p"] k(2) by blast
  have c: "set (zero_pad p (digits (m mod 10 ^ p))) \<subseteq> A"
    using zero_pad_chars [of p "digits (m mod 10 ^ p)"] d [of "m mod 10 ^ p"] k(4) by blast
  have "format_f g p x =
      (if x < 0 then ''-'' else []) @
      (if g then group3 (digits (m div 10 ^ p)) else digits (m div 10 ^ p)) @
      (if p = 0 then [] else ''.'' @ zero_pad p (digits (m mod 10 ^ p)))"
    by (simp add: format_f_def Let_def m_def)
  then show ?thesis
    using b c d [of "m div 10 ^ p"] k(1,3) by (simp add: subset_iff)
qed

lemma format_stat_not_sentinel: "format_stat m \<noteq> em_dash"
proof (cases m)
  case (Finite x)
  define A where "A = set ''-,.0123456789''"
  have s: "set ''-,.0123456789'' \<subseteq> A" by (simp only: A_def order_refl)
  have "set (format_stat m) \<subseteq> A"
    using format_f_chars [OF s, of True 0 x] format_f_chars [OF s, of False 3 x] Finite
    by (simp add: format_stat_def)
  moreover have "CHR 0xE2 \<notin> A" by (simp add: A_def)
  moreover have "CHR 0xE2 \<in> set em_dash" by (simp add: em_dash_def)
  ultimately have "set (format_stat m) \<noteq> set em_dash" by blast
  then show ?thesis by metis
qed (simp_all add: format_stat_def em_dash_def)

text \<open>The double nearest to 0.456, which is a little above it, prints the same.\<close>

lemma format_stat_nearest_double:
  "format_stat (Finite (8214565720323785 / 18014398509481984)) = ''0.456''"
  by (simp add: format_stat_def fmt_eval)

text \<open>
  C1, as amended.  For a bound column of the view with at least one numeric value,
  safe_mean and safe_median render pandas' mean and median of the coerced values
  (unparseable and missing cells dropped): with no decimals and thousands separators when
  the statistic itself is greater than 10, and with three decimals and no separator
  otherwise; 1234.0 is rendered as 1,234 and 0.456 as 0.456.  The comparison is on the
  signed value, not on its absolute value.
\<close>

theorem central_tendency_format:
  assumes "c \<noteq> []" and "c \<in> set (columns df)"
    and "v = List.map_filter (coerce parse) (map (\<lambda>r. cell_of r c) (rows df))"
    and "v \<noteq> []"
  shows "safe_mean parse mean df (Some c) =
           Inr (case mean v of
                  Finite m \<Rightarrow> if m > 10 then format_f True 0 m else format_f False 3 m
                | PosInf \<Rightarrow> ''inf'' | NegInf \<Rightarrow> ''-inf'' | NaN \<Rightarrow> ''nan'') \<and>
         safe_median parse median df (Some c) =
           Inr (case median v of
                  Finite m \<Rightarrow> if m > 10 then format_f True 0 m else format_f False 3 m
                | PosInf \<Rightarrow> ''inf'' | NegInf \<Rightarrow> ''-inf'' | NaN \<Rightarrow> ''nan'') \<and>
         (\<forall>x > 10. format_f True 0 x = group3 (digits (nat (round_half_even x))) \<and>
            filter (\<lambda>ch. ch \<noteq> CHR '','') (format_f True 0 x) = digits (nat (round_half_even x))) \<and>
         (\<forall>x. \<exists>ip fp. format_f False 3 x = (if x < 0 then ''-'' else []) @ ip @ ''.'' @ fp \<and>
            ip \<noteq> [] \<and> length fp = 3 \<and> set ip \<union> set fp \<subseteq> set ''0123456789'') \<and>
         format_stat (Finite 1234) = ''1,234'' \<and> format_stat (Finite 0.456) = ''0.456'' \<and>
         format_stat (Finite (8214565720323785 / 18014398509481984)) = ''0.456''"
proof -
  have nv: "numeric_values parse df c = v" using assms(3) by (simp add: numeric_values_def)
  have A: "safe_mean parse mean df (Some c) =
           Inr (case mean v of
                  Finite m \<Rightarrow> if m > 10 then format_f True 0 m else format_f False 3 m
                | PosInf \<Rightarrow> ''inf'' | NegInf \<Rightarrow> ''-inf'' | NaN \<Rightarrow> ''nan'')"
    using assms(1,2,4) by (simp add: safe_mean_present nv format_stat_def)
  have B: "safe_median parse median df (Some c) =
           Inr (case median v of
                  Finite m \<Rightarrow> if m > 10 then format_f True 0 m else format_f False 3 m
                | PosInf \<Rightarrow> ''inf'' | NegInf \<Rightarrow> ''-inf'' | NaN \<Rightarrow> ''nan'')"
    using assms(1,2,4) by (simp add: safe_median_present nv format_stat_def)
  have C: "\<forall>x > 10. format_f True 0 x = group3 (digits (nat (round_half_even x))) \<and>
            filter (\<lambda>ch. ch \<noteq> CHR '','') (format_f True 0 x) = digits (nat (round_half_even x))"
  proof (intro allI impI)
    fix x :: real assume "10 < x"
    then have "0 \<le> x" by simp
    from format_f_grouped0 [OF this] have e: "format_f True 0 x = group3 (digits (nat (round_half_even x)))" .
    have "filter (\<lambda>ch. ch \<noteq> CHR '','') (digits (nat (round_half_even x))) = digits (nat (round_half_even x))"
      using digits_chars [of "nat (round_half_even x)"] by (intro filter_True) auto
    with e show "format_f True 0 x = group3 (digits (nat (round_half_even x))) \<and>
            filter (\<lambda>ch. ch \<noteq> CHR '','') (format_f True 0 x) = digits (nat (round_half_even x))"
      by (simp add: group3_filter)
  qed
  have D: "format_stat (Finite 1234) = ''1,234''" by (simp add: format_stat_def fmt_eval)
  have E: "format_stat (Finite 0.456) = ''0.456''" by (simp add: format_stat_def fmt_eval)
  from A B C D E format_stat_nearest_double format_f_plain3 show ?thesis by blast
qed

theorem central_tendency_format_witness:
  "safe_mean no_parse exact_mean df_prices (Some ''price'') = Inr ''1,234'' \<and>
   safe_median no_parse exact_median df_prices (Some ''price'') = Inr ''1,234''"
proof -
  have c: "''price'' \<in> set (columns df_prices)" by (simp add: df_prices_def)
  have v: "[1000, 1468] = List.map_filter (coerce no_parse)
             (map (\<lambda>r. cell_of r ''price'') (rows df_prices))"
    by (simp add: df_prices_def cell_of_def List.map_filter_simps no_parse_def)
  note t = central_tendency_format [OF _ c v, where mean = exact_mean and median = exact_median]
  have m: "exact_mean [1000, 1468] = Finite 1234" by (simp add: exact_mean_def)
  have d: "exact_median [1000, 1468] = Finite 1234" by (simp add: exact_median_def)
  from t [THEN conjunct1]
  have "safe_mean no_parse exact_mean df_prices (Some ''price'') = Inr (format_f True 0 1234)"
    by (simp add: m)
  moreover from t [THEN conjunct2, THEN conjunct1]
  have "safe_median no_parse exact_median df_prices (Some ''price'') = Inr (format_f True 0 1234)"
    by (simp add: d)
  moreover have "format_f True 0 1234 = ''1,234''" by (simp add: fmt_eval)
  ultimately show ?thesis by simp
qed

text \<open>
  C1 as stated compares the absolute value with 10.  A column whose only value is -1234
  has mean and median -1234, of absolute value above 10, and the program renders them
  with three decimals and no separator.
\<close>

theorem central_tendency_format_counterexample:
  "\<bar>- 1234 :: real\<bar> > 10 \<and>
   exact_mean [- 1234] = Finite (- 1234) \<and> exact_median [- 1234] = Finite (- 1234) \<and>
   safe_mean no_parse exact_mean df_negative (Some ''ln_price'') = Inr ''-1234.000'' \<and>
   safe_median no_parse exact_median df_negative (Some ''ln_price'') = Inr ''-1234.000'' \<and>
   spec_format_stat (- 1234) = ''-1,234'' \<and>
   safe_mean no_parse exact_mean df_negative (Some ''ln_price'') \<noteq> Inr (spec_format_stat (- 1234))"
  by (simp add: safe_mean_def safe_median_def getitem_def df_negative_def cell_of_def to_num_def
      exact_mean_def exact_median_def format_stat_def spec_format_stat_def fmt_eval no_parse_def)

text \<open>
  C7. When the coerced column of the view has no numeric value left after the
  unparseable and missing cells are dropped, safe_mean and safe_median return the
  em-dash sentinel.
\<close>

theorem no_numeric_data_sentinel:
  assumes "c \<in> set (columns df)"
    and "List.map_filter (coerce parse) (map (\<lambda>r. cell_of r c) (rows df)) = []"
  shows "safe_mean parse mean df (Some c) = Inr em_dash \<and>
         safe_median parse median df (Some c) = Inr em_dash"
  using assms
  by (cases "c = []")
     (simp_all add: safe_mean_present safe_median_present numeric_values_def,
      simp_all add: safe_mean_def safe_median_def)

theorem no_numeric_data_sentinel_witness:
  "safe_mean (\<lambda>s. None) exact_mean df_prices (Some ''Area'') = Inr em_dash \<and>
   safe_median (\<lambda>s. None) exact_median df_prices (Some ''Area'') = Inr em_dash"
  using no_numeric_data_sentinel [of "''Area''" df_prices "\<lambda>s. None" exact_mean exact_median]
  by (simp add: df_prices_def cell_of_def List.map_filter_simps)

text \<open>
  C9. safe_mean and safe_median return the em-dash sentinel when the column argument is
  None or names no column of the dataframe, and they never raise: no call indexes a
  column that is missing.
\<close>

theorem safe_stat_unbound_column:
  "(col = None \<or> (\<exists>c. col = Some c \<and> c \<notin> set (columns df)) \<longrightarrow>
      safe_mean parse mean df col = Inr em_dash \<and>
      safe_median parse median df col = Inr em_dash) \<and>
   (\<exists>s. safe_mean parse mean df col = Inr s) \<and>
   (\<exists>s. safe_median parse median df col = Inr s)"
  by (auto simp: safe_mean_def safe_median_def getitem_def Let_def split: option.splits)

theorem safe_stat_unbound_column_witness:
  "safe_mean (\<lambda>s. None) exact_mean df_prices None = Inr em_dash \<and>
   safe_median (\<lambda>s. None) exact_median df_prices None = Inr em_dash \<and>
   safe_mean (\<lambda>s. None) exact_mean df_prices (Some ''Price'') = Inr em_dash \<and>
   safe_median (\<lambda>s. None) exact_median df_prices (Some ''Price'') = Inr em_dash"
  using safe_stat_unbound_column
      [where col = None and df = df_prices and parse = "\<lambda>s. None" and mean = exact_mean
         and median = exact_median]
    safe_stat_unbound_column
      [where col = "Some ''Price''" and df = df_prices and parse = "\<lambda>s. None"
         and mean = exact_mean and median = exact_median]
  by (simp add: df_prices_def)

section \<open>Properties of the sidebar filters\<close>

lemma mask_filter: "map fst (filter snd (zip xs (map p xs))) = filter p xs"
  by (induction xs) auto

lemma getitem_mask_isin:
  "getitem_mask df (isin (map (\<lambda>r. cell_of r c) (rows df)) sel) =
     df\<lparr>rows := filter (\<lambda>r. cell_of r c \<in> set sel) (rows df)\<rparr>"
proof -
  have "isin (map (\<lambda>r. cell_of r c) (rows df)) sel = map (\<lambda>r. cell_of r c \<in> set sel) (rows df)"
    by (simp add: isin_def)
  then show ?thesis by (simp add: getitem_mask_def mask_filter)
qed

lemma getitem_mask_between:
  "getitem_mask df (between (to_num parse (map (\<lambda>r. cell_of r c) (rows df))) lo hi) =
     df\<lparr>rows := filter (passes parse c lo hi) (rows df)\<rparr>"
proof -
  have "between (to_num parse (map (\<lambda>r. cell_of r c) (rows df))) lo hi =
        map (passes parse c lo hi) (rows df)"
    by (simp add: between_def to_num_def passes_def)
  then show ?thesis by (simp add: getitem_mask_def mask_filter)
qed

lemma passes_iff:
  "passes parse c lo hi r \<longleftrightarrow> (\<exists>x. coerce parse (cell_of r c) = Some x \<and> lo \<le> x \<and> x \<le> hi)"
  by (simp add: passes_def split: option.splits)

lemma area_block_eq:
  assumes "c \<noteq> []" and "c \<in> set (columns df)"
  shows "area_block u (Some c) (sb, df) =
     (case py_sorted (unique (dropna_cells (map (\<lambda>r. cell_of r c) (rows df)))) of
        Inl e \<Rightarrow> Inl e
      | Inr areas \<Rightarrow>
          Inr (sb @ [Multiselect ''Area'' areas (take 10 areas)
                       (multiselect u ''Area'' areas (take 10 areas))],
               if multiselect u ''Area'' areas (take 10 areas) = [] then df
               else df\<lparr>rows := filter (\<lambda>r. cell_of r c \<in>
                       set (multiselect u ''Area'' areas (take 10 areas))) (rows df)\<rparr>))"
proof -
  have tk: "\<And>areas :: cell list. (if length areas > 10 then take 10 areas else areas) = take 10 areas"
    by simp
  show ?thesis
    using assms
    by (simp add: area_block_def getitem_present Let_def tk getitem_mask_isin
        split: sum.splits)
qed

lemma bedroom_block_eq:
  assumes "c \<noteq> []" and "c \<in> set (columns df)"
  shows "bedroom_block parse u (Some c) (sb, df) =
     Inr (let b = numeric_values parse df c;
              bmin = py_int (Min (set b)); bmax = py_int (Max (set b));
              br = slider_int u ''Bedroom range'' bmin bmax (bmin, bmax)
          in if b = [] \<or> bmin = bmax then (sb, df)
             else (sb @ [SliderInt ''Bedroom range'' bmin bmax (bmin, bmax) br],
                   df\<lparr>rows := filter (passes parse c (of_int (fst br)) (of_int (snd br)))
                                 (rows df)\<rparr>))"
  using assms
  by (simp add: bedroom_block_def getitem_present Let_def getitem_mask_between
      dropna_to_num numeric_values_def)

lemma energy_block_eq:
  assumes "c \<noteq> []" and "c \<in> set (columns df)"
  shows "energy_block parse u (Some c) (sb, df) =
     Inr (let e = numeric_values parse df c;
              emin = Min (set e); emax = Max (set e);
              er = slider_float u ''Energy_score range'' emin emax (emin, emax)
          in if e = [] \<or> emin = emax then (sb, df)
             else (sb @ [SliderFloat ''Energy_score range'' emin emax (emin, emax) er],
                   df\<lparr>rows := filter (passes parse c (fst er) (snd er)) (rows df)\<rparr>))"
  using assms
  by (simp add: energy_block_def getitem_present Let_def getitem_mask_between
      dropna_to_num numeric_values_def)

lemma transport_block_eq:
  assumes "c \<noteq> []" and "c \<in> set (columns df)"
  shows "transport_block parse u (Some c) (sb, df) =
     Inr (let t = numeric_values parse df c;
              tmin = Min (set t); tmax = Max (set t);
              tr = slider_float u ''Transport range (optional)'' tmin tmax (tmin, tmax)
          in if t = [] \<or> tmin = tmax then (sb, df)
             else (sb @ [SliderFloat ''Transport range (optional)'' tmin tmax (tmin, tmax) tr],
                   df\<lparr>rows := filter (passes parse c (fst tr) (snd tr)) (rows df)\<rparr>))"
  using assms
  by (simp add: transport_block_def getitem_present Let_def getitem_mask_between
      dropna_to_num numeric_values_def)

lemma area_block_columns:
  assumes "area_block u (Some c) (sb, df) = Inr (sb', df')" and "c \<noteq> []"
  shows "c \<in> set (columns df)"
  using assms by (auto simp: area_block_def getitem_def split: if_splits)

text \<open>
  C2. Where the area block runs on a table with a bound area column, an empty selection
  leaves the table as it is, and a non-empty selection keeps exactly the rows whose
  area value is one of the selected values, in their order.
\<close>

theorem area_constraint_membership:
  assumes "area_block u (Some c) (sb, df) = Inr (sb', df')" and "c \<noteq> []"
  shows "\<exists>areas sel.
           sel = multiselect u ''Area'' areas (take 10 areas) \<and>
           sb' = sb @ [Multiselect ''Area'' areas (take 10 areas) sel] \<and>
           (sel = [] \<longrightarrow> df' = df) \<and>
           (sel \<noteq> [] \<longrightarrow>
              columns df' = columns df \<and>
              rows df' = filter (\<lambda>r. cell_of r c \<in> set sel) (rows df))"
proof -
  have c: "c \<in> set (columns df)" using assms by (rule area_block_columns)
  from assms(1) obtain areas where
    res: "(sb', df') =
       (sb @ [Multiselect ''Area'' areas (take 10 areas)
                (multiselect u ''Area'' areas (take 10 areas))],
        if multiselect u ''Area'' areas (take 10 areas) = [] then df
        else df\<lparr>rows := filter (\<lambda>r. cell_of r c \<in>
                set (multiselect u ''Area'' areas (take 10 areas))) (rows df)\<rparr>)"
    unfolding area_block_eq [OF assms(2) c] by (auto split: sum.splits)
  from res show ?thesis
    by (intro exI [where x = areas] exI [where x = "multiselect u ''Area'' areas (take 10 areas)"])
       (simp split: if_splits)
qed

lemma py_sorted_returns:
  "list_all is_num xs \<or> list_all is_str xs \<Longrightarrow> \<exists>ys. py_sorted xs = Inr ys"
  by (auto simp: py_sorted_def)

lemma area_block_returns:
  assumes "c \<in> set (columns df)"
    and "list_all is_num (dropna_cells (map (\<lambda>r. cell_of r c) (rows df))) \<or>
         list_all is_str (dropna_cells (map (\<lambda>r. cell_of r c) (rows df)))"
  shows "\<exists>st. area_block u (Some c) (sb, df) = Inr st"
proof (cases "c = []")
  case True
  then show ?thesis by (simp add: area_block_def)
next
  case False
  have "set (unique xs) = set xs" for xs :: "cell list" by (simp add: unique_def)
  then have "list_all P (unique xs) = list_all P xs" for P and xs :: "cell list"
    by (simp add: list_all_iff)
  with assms(2) py_sorted_returns [of "unique (dropna_cells (map (\<lambda>r. cell_of r c) (rows df)))"]
  obtain ys where "py_sorted (unique (dropna_cells (map (\<lambda>r. cell_of r c) (rows df)))) = Inr ys"
    by auto
  then show ?thesis by (simp add: area_block_eq [OF False assms(1)])
qed

theorem area_constraint_membership_witness:
  "area_block ui_clear (Some ''Area'') ([], df_beds) =
     Inr ([Multiselect ''Area'' [Str ''X'', Str ''Y''] [Str ''X'', Str ''Y''] []], df_beds) \<and>
   (\<exists>sb df'. area_block ui_pick (Some ''Area'') ([], df_beds) = Inr (sb, df') \<and>
      rows df' = [rows df_beds ! 0, rows df_beds ! 2])"
proof -
  have s: "py_sorted (unique (dropna_cells [Str ''X'', Str ''Y'', Str ''X'', Missing])) =
           Inr [Str ''X'', Str ''Y'']"
    by (simp add: py_sorted_def unique_def dropna_cells_def)
  have r1: "area_block ui_clear (Some ''Area'') ([], df_beds) =
     Inr ([Multiselect ''Area'' [Str ''X'', Str ''Y''] [Str ''X'', Str ''Y''] []], df_beds)"
    by (simp add: area_block_def getitem_def df_beds_def cell_of_def s ui_clear_def)
  obtain sb df' where r2: "area_block ui_pick (Some ''Area'') ([], df_beds) = Inr (sb, df')"
    using area_block_returns [of "''Area''" df_beds ui_pick "[]"]
    by (auto simp: df_beds_def cell_of_def dropna_cells_def)
  from area_constraint_membership [OF r2]
  have "rows df' = filter (\<lambda>r. cell_of r ''Area'' \<in> {Str ''X''}) (rows df_beds)"
    by (auto simp: ui_pick_def)
  then have "rows df' = [rows df_beds ! 0, rows df_beds ! 2]"
    by (simp add: df_beds_def cell_of_def)
  with r1 r2 show ?thesis by blast
qed

lemma rows_filter_passes:
  "rows (df\<lparr>rows := filter (passes parse c lo hi) (rows df)\<rparr>) =
     filter (\<lambda>r. \<exists>x. coerce parse (cell_of r c) = Some x \<and> lo \<le> x \<and> x \<le> hi) (rows df)"
  by (simp add: passes_iff [abs_def])

lemma passes_rows:
  assumes "df' = df\<lparr>rows := filter (passes parse c lo hi) (rows df)\<rparr>"
  shows "rows df' = filter (\<lambda>r. \<exists>x. coerce parse (cell_of r c) = Some x \<and>
                                lo \<le> x \<and> x \<le> hi) (rows df) \<and>
         (\<forall>r \<in> set (rows df'). coerce parse (cell_of r c) \<noteq> None)"
proof -
  have "rows df' = filter (\<lambda>r. \<exists>x. coerce parse (cell_of r c) = Some x \<and>
                                lo \<le> x \<and> x \<le> hi) (rows df)"
    unfolding assms by (rule rows_filter_passes)
  then show ?thesis by auto
qed

lemma bedroom_block_slider:
  assumes "c \<noteq> []" and "c \<in> set (columns df)"
    and "bedroom_block parse u (Some c) (sb, df) =
          Inr (sb @ [SliderInt l bmin bmax d (lo, hi)], df')"
  shows "df' = df\<lparr>rows := filter (passes parse c (of_int lo) (of_int hi)) (rows df)\<rparr>"
  using assms(3) unfolding bedroom_block_eq [OF assms(1,2)] Let_def
  by (auto split: if_splits)

lemma energy_block_slider:
  assumes "c \<noteq> []" and "c \<in> set (columns df)"
    and "energy_block parse u (Some c) (sb, df) =
          Inr (sb @ [SliderFloat l emin emax d (lo, hi)], df')"
  shows "df' = df\<lparr>rows := filter (passes parse c lo hi) (rows df)\<rparr>"
  using assms(3) unfolding energy_block_eq [OF assms(1,2)] Let_def
  by (auto split: if_splits)

lemma transport_block_slider:
  assumes "c \<noteq> []" and "c \<in> set (columns df)"
    and "transport_block parse u (Some c) (sb, df) =
          Inr (sb @ [SliderFloat l tmin tmax d (lo, hi)], df')"
  shows "df' = df\<lparr>rows := filter (passes parse c lo hi) (rows df)\<rparr>"
  using assms(3) unfolding transport_block_eq [OF assms(1,2)] Let_def
  by (auto split: if_splits)

text \<open>
  C5. For a bound numeric role (bedrooms, energy, transport) whose coerced values are not
  all equal (for bedrooms: not all equal after truncation), the block renders the slider
  of the role and, for the range from lo to hi that the slider returns, keeps exactly the
  rows whose value coerces to a number lying in the closed range; a row whose value is
  missing or unparseable is not kept.  And whenever a block returns with its slider
  rendered, the rows it keeps are those.
\<close>

theorem range_constraint_inclusive:
  assumes "c \<noteq> []" and "c \<in> set (columns df)"
    and "v = List.map_filter (coerce parse) (map (\<lambda>r. cell_of r c) (rows df))"
  shows
    "(\<forall>df' bmin bmax d lo hi.
        bedroom_block parse u (Some c) (sb, df) =
          Inr (sb @ [SliderInt ''Bedroom range'' bmin bmax d (lo, hi)], df') \<longrightarrow>
        rows df' = filter (\<lambda>r. \<exists>x. coerce parse (cell_of r c) = Some x \<and>
                                of_int lo \<le> x \<and> x \<le> of_int hi) (rows df) \<and>
        (\<forall>r \<in> set (rows df'). coerce parse (cell_of r c) \<noteq> None)) \<and>
     (\<forall>df' emin emax d lo hi.
        energy_block parse u (Some c) (sb, df) =
          Inr (sb @ [SliderFloat ''Energy_score range'' emin emax d (lo, hi)], df') \<longrightarrow>
        rows df' = filter (\<lambda>r. \<exists>x. coerce parse (cell_of r c) = Some x \<and>
                                lo \<le> x \<and> x \<le> hi) (rows df) \<and>
        (\<forall>r \<in> set (rows df'). coerce parse (cell_of r c) \<noteq> None)) \<and>
     (\<forall>df' tmin tmax d lo hi.
        transport_block parse u (Some c) (sb, df) =
          Inr (sb @ [SliderFloat ''Transport range (optional)'' tmin tmax d (lo, hi)], df') \<longrightarrow>
        rows df' = filter (\<lambda>r. \<exists>x. coerce parse (cell_of r c) = Some x \<and>
                                lo \<le> x \<and> x \<le> hi) (rows df) \<and>
        (\<forall>r \<in> set (rows df'). coerce parse (cell_of r c) \<noteq> None)) \<and>
     (v \<noteq> [] \<and> py_int (Min (set v)) \<noteq> py_int (Max (set v)) \<longrightarrow>
        (\<exists>lo hi.
           slider_int u ''Bedroom range'' (py_int (Min (set v))) (py_int (Max (set v)))
             (py_int (Min (set v)), py_int (Max (set v))) = (lo, hi) \<and>
           bedroom_block parse u (Some c) (sb, df) =
             Inr (sb @ [SliderInt ''Bedroom range'' (py_int (Min (set v))) (py_int (Max (set v)))
                          (py_int (Min (set v)), py_int (Max (set v))) (lo, hi)],
                  df\<lparr>rows := filter (\<lambda>r. \<exists>x. coerce parse (cell_of r c) = Some x \<and>
                                         of_int lo \<le> x \<and> x \<le> of_int hi) (rows df)\<rparr>))) \<and>
     (v \<noteq> [] \<and> Min (set v) \<noteq> Max (set v) \<longrightarrow>
        (\<exists>lo hi.
           slider_float u ''Energy_score range'' (Min (set v)) (Max (set v))
             (Min (set v), Max (set v)) = (lo, hi) \<and>
           energy_block parse u (Some c) (sb, df) =
             Inr (sb @ [SliderFloat ''Energy_score range'' (Min (set v)) (Max (set v))
                          (Min (set v), Max (set v)) (lo, hi)],
                  df\<lparr>rows := filter (\<lambda>r. \<exists>x. coerce parse (cell_of r c) = Some x \<and>
                                         lo \<le> x \<and> x \<le> hi) (rows df)\<rparr>))) \<and>
     (v \<noteq> [] \<and> Min (set v) \<noteq> Max (set v) \<longrightarrow>
        (\<exists>lo hi.
           slider_float u ''Transport range (optional)'' (Min (set v)) (Max (set v))
             (Min (set v), Max (set v)) = (lo, hi) \<and>
           transport_block parse u (Some c) (sb, df) =
             Inr (sb @ [SliderFloat ''Transport range (optional)'' (Min (set v)) (Max (set v))
                          (Min (set v), Max (set v)) (lo, hi)],
                  df\<lparr>rows := filter (\<lambda>r. \<exists>x. coerce parse (cell_of r c) = Some x \<and>
                                         lo \<le> x \<and> x \<le> hi) (rows df)\<rparr>)))"
proof -
  note b = passes_rows [OF bedroom_block_slider [OF assms(1,2)]]
    and e = passes_rows [OF energy_block_slider [OF assms(1,2)]]
    and t = passes_rows [OF transport_block_slider [OF assms(1,2)]]
  have nv: "numeric_values parse df c = v" using assms(3) by (simp add: numeric_values_def)
  have B: "\<forall>df' bmin bmax d lo hi.
        bedroom_block parse u (Some c) (sb, df) =
          Inr (sb @ [SliderInt ''Bedroom range'' bmin bmax d (lo, hi)], df') \<longrightarrow>
        rows df' = filter (\<lambda>r. \<exists>x. coerce parse (cell_of r c) = Some x \<and>
                                of_int lo \<le> x \<and> x \<le> of_int hi) (rows df) \<and>
        (\<forall>r \<in> set (rows df'). coerce parse (cell_of r c) \<noteq> None)"
    using b by blast
  have E: "\<forall>df' emin emax d lo hi.
        energy_block parse u (Some c) (sb, df) =
          Inr (sb @ [SliderFloat ''Energy_score range'' emin emax d (lo, hi)], df') \<longrightarrow>
        rows df' = filter (\<lambda>r. \<exists>x. coerce parse (cell_of r c) = Some x \<and>
                                lo \<le> x \<and> x \<le> hi) (rows df) \<and>
        (\<forall>r \<in> set (rows df'). coerce parse (cell_of r c) \<noteq> None)"
    using e by blast
  have T: "\<forall>df' tmin tmax d lo hi.
        transport_block parse u (Some c) (sb, df) =
          Inr (sb @ [SliderFloat ''Transport range (optional)'' tmin tmax d (lo, hi)], df') \<longrightarrow>
        rows df' = filter (\<lambda>r. \<exists>x. coerce parse (cell_of r c) = Some x \<and>
                                lo \<le> x \<and> x \<le> hi) (rows df) \<and>
        (\<forall>r \<in> set (rows df'). coerce parse (cell_of r c) \<noteq> None)"
    using t by blast
  have B': "v \<noteq> [] \<and> py_int (Min (set v)) \<noteq> py_int (Max (set v)) \<longrightarrow>
        (\<exists>lo hi.
           slider_int u ''Bedroom range'' (py_int (Min (set v))) (py_int (Max (set v)))
             (py_int (Min (set v)), py_int (Max (set v))) = (lo, hi) \<and>
           bedroom_block parse u (Some c) (sb, df) =
             Inr (sb @ [SliderInt ''Bedroom range'' (py_int (Min (set v))) (py_int (Max (set v)))
                          (py_int (Min (set v)), py_int (Max (set v))) (lo, hi)],
                  df\<lparr>rows := filter (\<lambda>r. \<exists>x. coerce parse (cell_of r c) = Some x \<and>
                                         of_int lo \<le> x \<and> x \<le> of_int hi) (rows df)\<rparr>))"
  proof
    assume a: "v \<noteq> [] \<and> py_int (Min (set v)) \<noteq> py_int (Max (set v))"
    obtain lo hi where s: "slider_int u ''Bedroom range'' (py_int (Min (set v)))
        (py_int (Max (set v))) (py_int (Min (set v)), py_int (Max (set v))) = (lo, hi)"
      by (cases "slider_int u ''Bedroom range'' (py_int (Min (set v)))
        (py_int (Max (set v))) (py_int (Min (set v)), py_int (Max (set v)))")
    have "bedroom_block parse u (Some c) (sb, df) =
             Inr (sb @ [SliderInt ''Bedroom range'' (py_int (Min (set v))) (py_int (Max (set v)))
                          (py_int (Min (set v)), py_int (Max (set v))) (lo, hi)],
                  df\<lparr>rows := filter (passes parse c (of_int lo) (of_int hi)) (rows df)\<rparr>)"
      using a by (simp add: bedroom_block_eq [OF assms(1,2)] nv Let_def s)
    with s show "\<exists>lo hi.
           slider_int u ''Bedroom range'' (py_int (Min (set v))) (py_int (Max (set v)))
             (py_int (Min (set v)), py_int (Max (set v))) = (lo, hi) \<and>
           bedroom_block parse u (Some c) (sb, df) =
             Inr (sb @ [SliderInt ''Bedroom range'' (py_int (Min (set v))) (py_int (Max (set v)))
                          (py_int (Min (set v)), py_int (Max (set v))) (lo, hi)],
                  df\<lparr>rows := filter (\<lambda>r. \<exists>x. coerce parse (cell_of r c) = Some x \<and>
                                         of_int lo \<le> x \<and> x \<le> of_int hi) (rows df)\<rparr>)"
      unfolding passes_iff [abs_def] by blast
  qed
  have E': "v \<noteq> [] \<and> Min (set v) \<noteq> Max (set v) \<longrightarrow>
        (\<exists>lo hi.
           slider_float u ''Energy_score range'' (Min (set v)) (Max (set v))
             (Min (set v), Max (set v)) = (lo, hi) \<and>
           energy_block parse u (Some c) (sb, df) =
             Inr (sb @ [SliderFloat ''Energy_score range'' (Min (set v)) (Max (set v))
                          (Min (set v), Max (set v)) (lo, hi)],
                  df\<lparr>rows := filter (\<lambda>r. \<exists>x. coerce parse (cell_of r c) = Some x \<and>
                                         lo \<le> x \<and> x \<le> hi) (rows df)\<rparr>))"
  proof
    assume a: "v \<noteq> [] \<and> Min (set v) \<noteq> Max (set v)"
    obtain lo hi where s: "slider_float u ''Energy_score range'' (Min (set v)) (Max (set v))
             (Min (set v), Max (set v)) = (lo, hi)"
      by (cases "slider_float u ''Energy_score range'' (Min (set v)) (Max (set v))
             (Min (set v), Max (set v))")
    have "energy_block parse u (Some c) (sb, df) =
             Inr (sb @ [SliderFloat ''Energy_score range'' (Min (set v)) (Max (set v))
                          (Min (set v), Max (set v)) (lo, hi)],
                  df\<lparr>rows := filter (passes parse c lo hi) (rows df)\<rparr>)"
      using a by (simp add: energy_block_eq [OF assms(1,2)] nv Let_def s)
    with s show "\<exists>lo hi.
           slider_float u ''Energy_score range'' (Min (set v)) (Max (set v))
             (Min (set v), Max (set v)) = (lo, hi) \<and>
           energy_block parse u (Some c) (sb, df) =
             Inr (sb @ [SliderFloat ''Energy_score range'' (Min (set v)) (Max (set v))
                          (Min (set v), Max (set v)) (lo, hi)],
                  df\<lparr>rows := filter (\<lambda>r. \<exists>x. coerce parse (cell_of r c) = Some x \<and>
                                         lo \<le> x \<and> x \<le> hi) (rows df)\<rparr>)"
      unfolding passes_iff [abs_def] by blast
  qed
  have T': "v \<noteq> [] \<and> Min (set v) \<noteq> Max (set v) \<longrightarrow>
        (\<exists>lo hi.
           slider_float u ''Transport range (optional)'' (Min (set v)) (Max (set v))
             (Min (set v), Max (set v)) = (lo, hi) \<and>
           transport_block parse u (Some c) (sb, df) =
             Inr (sb @ [SliderFloat ''Transport range (optional)'' (Min (set v)) (Max (set v))
                          (Min (set v), Max (set v)) (lo, hi)],
                  df\<lparr>rows := filter (\<lambda>r. \<exists>x. coerce parse (cell_of r c) = Some x \<and>
                                         lo \<le> x \<and> x \<le> hi) (rows df)\<rparr>))"
  proof
    assume a: "v \<noteq> [] \<and> Min (set v) \<noteq> Max (set v)"
    obtain lo hi where s: "slider_float u ''Transport range (optional)'' (Min (set v))
             (Max (set v)) (Min (set v), Max (set v)) = (lo, hi)"
      by (cases "slider_float u ''Transport range (optional)'' (Min (set v))
             (Max (set v)) (Min (set v), Max (set v))")
    have "transport_block parse u (Some c) (sb, df) =
             Inr (sb @ [SliderFloat ''Transport range (optional)'' (Min (set v)) (Max (set v))
                          (Min (set v), Max (set v)) (lo, hi)],
                  df\<lparr>rows := filter (passes parse c lo hi) (rows df)\<rparr>)"
      using a by (simp add: transport_block_eq [OF assms(1,2)] nv Let_def s)
    with s show "\<exists>lo hi.
           slider_float u ''Transport range (optional)'' (Min (set v)) (Max (set v))
             (Min (set v), Max (set v)) = (lo, hi) \<and>
           transport_block parse u (Some c) (sb, df) =
             Inr (sb @ [SliderFloat ''Transport range (optional)'' (Min (set v)) (Max (set v))
                          (Min (set v), Max (set v)) (lo, hi)],
                  df\<lparr>rows := filter (\<lambda>r. \<exists>x. coerce parse (cell_of r c) = Some x \<and>
                                         lo \<le> x \<and> x \<le> hi) (rows df)\<rparr>)"
      unfolding passes_iff [abs_def] by blast
  qed
  from B E T B' E' T' show ?thesis by (intro conjI)
qed

theorem range_constraint_inclusive_witness:
  "bedroom_block no_parse ui_pick (Some ''Bedroom'') ([], df_beds) =
     Inr ([SliderInt ''Bedroom range'' 2 5 (2, 5) (2, 3)],
          df_beds\<lparr>rows := [rows df_beds ! 0]\<rparr>) \<and>
   energy_block no_parse ui_scores (Some ''Energy_score'') ([], df_scores) =
     Inr ([SliderFloat ''Energy_score range'' 2 9 (2, 9) (4, 10)],
          df_scores\<lparr>rows := [rows df_scores ! 1, rows df_scores ! 3]\<rparr>) \<and>
   transport_block no_parse ui_scores (Some ''transport'') ([], df_scores) =
     Inr ([SliderFloat ''Transport range (optional)'' 1 3 (1, 3) (1, 3)],
          df_scores\<lparr>rows := [rows df_scores ! 0, rows df_scores ! 2, rows df_scores ! 3]\<rparr>)"
proof -
  have cb: "''Bedroom'' \<in> set (columns df_beds)" by (simp add: df_beds_def)
  have vb: "[2, 5] = List.map_filter (coerce no_parse)
              (map (\<lambda>r. cell_of r ''Bedroom'') (rows df_beds))"
    by (simp add: df_beds_def cell_of_def List.map_filter_simps no_parse_def)
  have ce: "''Energy_score'' \<in> set (columns df_scores)" by (simp add: df_scores_def)
  have ve: "[2, 9, 5] = List.map_filter (coerce no_parse)
              (map (\<lambda>r. cell_of r ''Energy_score'') (rows df_scores))"
    by (simp add: df_scores_def cell_of_def List.map_filter_simps no_parse_def)
  have ct: "''transport'' \<in> set (columns df_scores)" by (simp add: df_scores_def)
  have vt: "[1, 3, 2] = List.map_filter (coerce no_parse)
              (map (\<lambda>r. cell_of r ''transport'') (rows df_scores))"
    by (simp add: df_scores_def cell_of_def List.map_filter_simps no_parse_def)
  have me: "Min (set [2, 9, 5 :: real]) = 2" "Max (set [2, 9, 5 :: real]) = 9"
    by simp_all
  have mt: "Min (set [1, 3, 2 :: real]) = 1" "Max (set [1, 3, 2 :: real]) = 3"
    by simp_all
  have fb: "filter (\<lambda>r. \<exists>x. coerce no_parse (cell_of r ''Bedroom'') = Some x \<and>
                2 \<le> x \<and> x \<le> 3) (rows df_beds) = [rows df_beds ! 0]"
    by (simp add: df_beds_def cell_of_def no_parse_def)
  have fe: "filter (\<lambda>r. \<exists>x. coerce no_parse (cell_of r ''Energy_score'') = Some x \<and>
                4 \<le> x \<and> x \<le> 10) (rows df_scores) = [rows df_scores ! 1, rows df_scores ! 3]"
    by (simp add: df_scores_def cell_of_def no_parse_def)
  have ft: "filter (\<lambda>r. \<exists>x. coerce no_parse (cell_of r ''transport'') = Some x \<and>
                1 \<le> x \<and> x \<le> 3) (rows df_scores) =
            [rows df_scores ! 0, rows df_scores ! 2, rows df_scores ! 3]"
    by (simp add: df_scores_def cell_of_def no_parse_def)
  note tb = range_constraint_inclusive [OF _ cb vb, where u = ui_pick and sb = "[]"]
  note te = range_constraint_inclusive [OF _ ce ve, where u = ui_scores and sb = "[]"]
  note tt = range_constraint_inclusive [OF _ ct vt, where u = ui_scores and sb = "[]"]
  from tb [THEN conjunct2, THEN conjunct2, THEN conjunct2, THEN conjunct1]
  have 1: "bedroom_block no_parse ui_pick (Some ''Bedroom'') ([], df_beds) =
     Inr ([SliderInt ''Bedroom range'' 2 5 (2, 5) (2, 3)],
          df_beds\<lparr>rows := [rows df_beds ! 0]\<rparr>)"
    by (simp add: py_int_def ui_pick_def fb)
  from te [THEN conjunct2, THEN conjunct2, THEN conjunct2, THEN conjunct2, THEN conjunct1]
  have 2: "energy_block no_parse ui_scores (Some ''Energy_score'') ([], df_scores) =
     Inr ([SliderFloat ''Energy_score range'' 2 9 (2, 9) (4, 10)],
          df_scores\<lparr>rows := [rows df_scores ! 1, rows df_scores ! 3]\<rparr>)"
    by (simp add: me ui_scores_def fe)
  from tt [THEN conjunct2, THEN conjunct2, THEN conjunct2, THEN conjunct2, THEN conjunct2]
  have 3: "transport_block no_parse ui_scores (Some ''transport'') ([], df_scores) =
     Inr ([SliderFloat ''Transport range (optional)'' 1 3 (1, 3) (1, 3)],
          df_scores\<lparr>rows := [rows df_scores ! 0, rows df_scores ! 2, rows df_scores ! 3]\<rparr>)"
    by (simp add: mt ui_scores_def ft)
  from 1 2 3 show ?thesis by (intro conjI)
qed

text \<open>
  C6. For a bound numeric role whose coerced values have equal minimum and maximum, the
  block renders no slider (the sidebar is unchanged) and applies no constraint (the table
  is unchanged), so every row passes for that role.
\<close>

theorem zero_width_range_omitted:
  assumes "c \<noteq> []" and "c \<in> set (columns df)"
    and "v = List.map_filter (coerce parse) (map (\<lambda>r. cell_of r c) (rows df))"
    and "v \<noteq> []" and "Min (set v) = Max (set v)"
  shows "bedroom_block parse u (Some c) (sb, df) = Inr (sb, df) \<and>
         energy_block parse u (Some c) (sb, df) = Inr (sb, df) \<and>
         transport_block parse u (Some c) (sb, df) = Inr (sb, df)"
proof -
  have nv: "numeric_values parse df c = v" using assms(3) by (simp add: numeric_values_def)
  show ?thesis
    using assms(5)
    by (simp add: bedroom_block_eq [OF assms(1,2)] energy_block_eq [OF assms(1,2)]
        transport_block_eq [OF assms(1,2)] nv Let_def)
qed

theorem zero_width_range_omitted_witness:
  "bedroom_block no_parse ui_pick (Some ''c'') ([], df_flat) = Inr ([], df_flat) \<and>
   energy_block no_parse ui_pick (Some ''c'') ([], df_flat) = Inr ([], df_flat) \<and>
   transport_block no_parse ui_pick (Some ''c'') ([], df_flat) = Inr ([], df_flat)"
proof -
  have c: "''c'' \<in> set (columns df_flat)" by (simp add: df_flat_def)
  have v: "[3, 3] = List.map_filter (coerce no_parse) (map (\<lambda>r. cell_of r ''c'') (rows df_flat))"
    by (simp add: df_flat_def cell_of_def List.map_filter_simps no_parse_def)
  show ?thesis
    by (rule zero_width_range_omitted [OF _ c v]) simp_all
qed

text \<open>
  C10. The bounds of the bedroom slider are the minimum and the maximum of the coerced
  column truncated to integers.  When the truncated bounds are equal the slider is
  omitted and the table unchanged, even if the minimum and the maximum differ; when they
  differ and the slider is left at its default, the full range, no row whose value
  exceeds the truncated maximum is kept.
\<close>

theorem bedroom_bounds_truncated:
  assumes "c \<noteq> []" and "c \<in> set (columns df)"
    and "b = List.map_filter (coerce parse) (map (\<lambda>r. cell_of r c) (rows df))"
    and "b \<noteq> []"
    and "bmin = py_int (Min (set b))" and "bmax = py_int (Max (set b))"
  shows "(bmin = bmax \<longrightarrow> bedroom_block parse u (Some c) (sb, df) = Inr (sb, df)) \<and>
         (bmin \<noteq> bmax \<longrightarrow>
            (\<exists>br df'. bedroom_block parse u (Some c) (sb, df) =
                 Inr (sb @ [SliderInt ''Bedroom range'' bmin bmax (bmin, bmax) br], df') \<and>
               br = slider_int u ''Bedroom range'' bmin bmax (bmin, bmax) \<and>
               (br = (bmin, bmax) \<longrightarrow>
                  (\<forall>r x. coerce parse (cell_of r c) = Some x \<and> real_of_int bmax < x \<longrightarrow>
                     r \<notin> set (rows df')))))"
proof -
  have nv: "numeric_values parse df c = b" using assms(3) by (simp add: numeric_values_def)
  show ?thesis
    using assms(4,5,6)
    by (auto simp add: bedroom_block_eq [OF assms(1,2)] nv Let_def passes_def)
qed

theorem bedroom_bounds_truncated_witness:
  "bedroom_block no_parse ui_default (Some ''Bedroom'') ([], df_half_beds) =
     Inr ([SliderInt ''Bedroom range'' 1 2 (1, 2) (1, 2)],
          df_half_beds\<lparr>rows := [[(''Bedroom'', Num 1)]]\<rparr>) \<and>
   [(''Bedroom'', Num (5 / 2))] \<in> set (rows df_half_beds) \<and>
   bedroom_block no_parse ui_default (Some ''Bedroom'') ([], df_near_beds) =
     Inr ([], df_near_beds) \<and>
   Min (set [2, 5 / 2 :: real]) \<noteq> Max (set [2, 5 / 2])"
proof -
  have c1: "''Bedroom'' \<in> set (columns df_half_beds)" by (simp add: df_half_beds_def)
  have b1: "[1, 5 / 2] = List.map_filter (coerce no_parse)
              (map (\<lambda>r. cell_of r ''Bedroom'') (rows df_half_beds))"
    by (simp add: df_half_beds_def cell_of_def List.map_filter_simps)
  have lo1: "1 = py_int (Min (set [1, 5 / 2]))" by (simp add: py_int_def)
  have hi1: "2 = py_int (Max (set [1, 5 / 2]))" by (simp add: py_int_def)
  have c2: "''Bedroom'' \<in> set (columns df_near_beds)" by (simp add: df_near_beds_def)
  have b2: "[2, 5 / 2] = List.map_filter (coerce no_parse)
              (map (\<lambda>r. cell_of r ''Bedroom'') (rows df_near_beds))"
    by (simp add: df_near_beds_def cell_of_def List.map_filter_simps)
  have lo2: "2 = py_int (Min (set [2, 5 / 2]))" by (simp add: py_int_def)
  have hi2: "2 = py_int (Max (set [2, 5 / 2]))" by (simp add: py_int_def)
  from bedroom_bounds_truncated [OF _ c2 b2 _ lo2 hi2, where u = ui_default and sb = "[]"]
  have near: "bedroom_block no_parse ui_default (Some ''Bedroom'') ([], df_near_beds) =
     Inr ([], df_near_beds)" by simp
  have half: "bedroom_block no_parse ui_default (Some ''Bedroom'') ([], df_half_beds) =
     Inr ([SliderInt ''Bedroom range'' 1 2 (1, 2) (1, 2)],
          df_half_beds\<lparr>rows := [[(''Bedroom'', Num 1)]]\<rparr>)"
    using b1 [symmetric]
    by (simp add: bedroom_block_eq [OF _ c1] numeric_values_def py_int_def ui_default_def Let_def)
       (simp add: df_half_beds_def cell_of_def passes_def)
  have "[(''Bedroom'', Num (5 / 2))] \<in> set (rows df_half_beds)"
    by (simp add: df_half_beds_def)
  moreover have "Min (set [2, 5 / 2 :: real]) \<noteq> Max (set [2, 5 / 2])" by simp
  ultimately show ?thesis using near half by simp
qed

section \<open>Properties of the filter pipeline\<close>

lemma narrows_refl: "narrows st st"
  unfolding narrows_def
proof (intro conjI)
  show "\<exists>P. snd st = (snd st)\<lparr>rows := filter P (rows (snd st))\<rparr>"
    by (rule exI [where x = "\<lambda>r. True"]) simp
  show "\<exists>ws. fst st = fst st @ ws \<and> (list_ex is_constraint ws \<or> snd st = snd st)"
    by (rule exI [where x = "[]"]) simp
qed

lemma narrows_trans:
  assumes "narrows a b" and "narrows b c"
  shows "narrows a c"
proof -
  from assms(1) obtain P ws where
    1: "snd b = (snd a)\<lparr>rows := filter P (rows (snd a))\<rparr>"
       "fst b = fst a @ ws" "list_ex is_constraint ws \<or> snd b = snd a"
    unfolding narrows_def by blast
  from assms(2) obtain Q vs where
    2: "snd c = (snd b)\<lparr>rows := filter Q (rows (snd b))\<rparr>"
       "fst c = fst b @ vs" "list_ex is_constraint vs \<or> snd c = snd b"
    unfolding narrows_def by blast
  have "snd c = (snd a)\<lparr>rows := filter (\<lambda>r. P r \<and> Q r) (rows (snd a))\<rparr>"
    using 1(1) 2(1) by simp
  moreover have "fst c = fst a @ (ws @ vs)" using 1(2) 2(2) by simp
  moreover have "list_ex is_constraint (ws @ vs) \<or> snd c = snd a"
    using 1(3) 2(3) by auto
  ultimately show ?thesis unfolding narrows_def by blast
qed

lemma narrows_filter:
  "is_constraint w \<Longrightarrow> narrows (sb, df) (sb @ [w], df\<lparr>rows := filter P (rows df)\<rparr>)"
  unfolding narrows_def by (auto intro: exI [where x = "[w]"])

lemma narrows_widget: "narrows (sb, df) (sb @ ws, df)"
  unfolding narrows_def
proof (intro conjI)
  show "\<exists>P. snd (sb @ ws, df) = (snd (sb, df))\<lparr>rows := filter P (rows (snd (sb, df)))\<rparr>"
    by (rule exI [where x = "\<lambda>r. True"]) simp
  show "\<exists>vs. fst (sb @ ws, df) = fst (sb, df) @ vs \<and>
          (list_ex is_constraint vs \<or> snd (sb @ ws, df) = snd (sb, df))"
    by (rule exI [where x = ws]) simp
qed

lemma block_KeyError:
  assumes "c \<noteq> []" and "c \<notin> set (columns df)"
  shows "area_block u (Some c) (sb, df) = Inl KeyError"
    and "bedroom_block parse u (Some c) (sb, df) = Inl KeyError"
    and "energy_block parse u (Some c) (sb, df) = Inl KeyError"
    and "transport_block parse u (Some c) (sb, df) = Inl KeyError"
  using assms
  by (simp_all add: area_block_def bedroom_block_def energy_block_def transport_block_def
      getitem_def)

lemma block_unbound:
  assumes "col = None \<or> col = Some []"
  shows "area_block u col st = Inr st"
    and "bedroom_block parse u col st = Inr st"
    and "energy_block parse u col st = Inr st"
    and "transport_block parse u col st = Inr st"
  using assms
  by (auto simp add: area_block_def bedroom_block_def energy_block_def transport_block_def
      split: prod.splits)

lemma area_block_narrows:
  assumes "area_block u col st = Inr st'"
  shows "narrows st st'"
proof (cases "col = None \<or> col = Some []")
  case True
  from block_unbound(1) [OF True] assms show ?thesis by (simp add: narrows_refl)
next
  case False
  then obtain c where c: "col = Some c" "c \<noteq> []" by (cases col) auto
  obtain sb df where st: "st = (sb, df)" by (cases st)
  have cin: "c \<in> set (columns df)"
    using assms block_KeyError(1) [OF c(2), of df u sb] unfolding c st by auto
  from assms obtain areas where
    "st' = (sb @ [Multiselect ''Area'' areas (take 10 areas)
                (multiselect u ''Area'' areas (take 10 areas))],
        if multiselect u ''Area'' areas (take 10 areas) = [] then df
        else df\<lparr>rows := filter (\<lambda>r. cell_of r c \<in>
                set (multiselect u ''Area'' areas (take 10 areas))) (rows df)\<rparr>)"
    unfolding c st area_block_eq [OF c(2) cin] by (auto split: sum.splits)
  then show ?thesis
    unfolding st by (auto intro: narrows_widget narrows_filter)
qed

lemma bedroom_block_narrows:
  assumes "bedroom_block parse u col st = Inr st'"
  shows "narrows st st'"
proof (cases "col = None \<or> col = Some []")
  case True
  from block_unbound(2) [OF True] assms show ?thesis by (simp add: narrows_refl)
next
  case False
  then obtain c where c: "col = Some c" "c \<noteq> []" by (cases col) auto
  obtain sb df where st: "st = (sb, df)" by (cases st)
  have cin: "c \<in> set (columns df)"
    using assms block_KeyError(2) [OF c(2), of df parse u sb] unfolding c st by auto
  from assms show ?thesis
    unfolding c st bedroom_block_eq [OF c(2) cin] Let_def
    by (auto intro: narrows_refl narrows_filter split: if_splits)
qed

lemma energy_block_narrows:
  assumes "energy_block parse u col st = Inr st'"
  shows "narrows st st'"
proof (cases "col = None \<or> col = Some []")
  case True
  from block_unbound(3) [OF True] assms show ?thesis by (simp add: narrows_refl)
next
  case False
  then obtain c where c: "col = Some c" "c \<noteq> []" by (cases col) auto
  obtain sb df where st: "st = (sb, df)" by (cases st)
  have cin: "c \<in> set (columns df)"
    using assms block_KeyError(3) [OF c(2), of df parse u sb] unfolding c st by auto
  from assms show ?thesis
    unfolding c st energy_block_eq [OF c(2) cin] Let_def
    by (auto intro: narrows_refl narrows_filter split: if_splits)
qed

lemma transport_block_narrows:
  assumes "transport_block parse u col st = Inr st'"
  shows "narrows st st'"
proof (cases "col = None \<or> col = Some []")
  case True
  from block_unbound(4) [OF True] assms show ?thesis by (simp add: narrows_refl)
next
  case False
  then obtain c where c: "col = Some c" "c \<noteq> []" by (cases col) auto
  obtain sb df where st: "st = (sb, df)" by (cases st)
  have cin: "c \<in> set (columns df)"
    using assms block_KeyError(4) [OF c(2), of df parse u sb] unfolding c st by auto
  from assms show ?thesis
    unfolding c st transport_block_eq [OF c(2) cin] Let_def
    by (auto intro: narrows_refl narrows_filter split: if_splits)
qed

lemma sidebar_filters_narrows:
  assumes "sidebar_filters parse u df = Inr (sb, df')"
  shows "\<exists>ws. narrows ([Header ''Filters''], df) (ws, df') \<and>
           sb = ws @ [Markdown ''---'',
                      Metric ''Rows after filters'' (format_count (length (rows df'))),
                      DownloadButton (down_arrow @ '' Download filtered data (CSV)'')
                        df' ''milan_filtered.csv'' ''text/csv'']"
proof -
  from assms obtain st1 st2 st3 ws where
    1: "area_block u (resolve df Area) ([Header ''Filters''], df) = Inr st1" and
    2: "bedroom_block parse u (resolve df Bedrooms) st1 = Inr st2" and
    3: "energy_block parse u (resolve df Energy) st2 = Inr st3" and
    4: "transport_block parse u (resolve df Transport) st3 = Inr (ws, df')" and
    5: "sb = ws @ [Markdown ''---'',
                      Metric ''Rows after filters'' (format_count (length (rows df'))),
                      DownloadButton (down_arrow @ '' Download filtered data (CSV)'')
                        df' ''milan_filtered.csv'' ''text/csv'']"
    unfolding sidebar_filters_def Let_def
    by (auto split: sum.splits prod.splits)
  from area_block_narrows [OF 1] bedroom_block_narrows [OF 2] energy_block_narrows [OF 3]
    transport_block_narrows [OF 4]
  have "narrows ([Header ''Filters''], df) (ws, df')"
    by (blast intro: narrows_trans)
  with 5 show ?thesis by blast
qed

text \<open>
  C4. For every table and every state of the widgets, the filtered view the pipeline
  returns has the columns of the table, its rows are a subsequence of the table's rows
  (no row that is not in the table, no more rows than the table, the order kept), and it
  is the table itself when no rendered widget is a constraint.
\<close>

theorem filtered_view_subsequence:
  assumes "sidebar_filters parse u df = Inr (sb, df')"
  shows "columns df' = columns df \<and>
         subseq (rows df') (rows df) \<and>
         set (rows df') \<subseteq> set (rows df) \<and>
         length (rows df') \<le> length (rows df) \<and>
         (\<not> list_ex is_constraint sb \<longrightarrow> df' = df)"
proof -
  from sidebar_filters_narrows [OF assms] obtain ws where
    n: "narrows ([Header ''Filters''], df) (ws, df')" and
    sb: "sb = ws @ [Markdown ''---'',
                      Metric ''Rows after filters'' (format_count (length (rows df'))),
                      DownloadButton (down_arrow @ '' Download filtered data (CSV)'')
                        df' ''milan_filtered.csv'' ''text/csv'']"
    by blast
  from n obtain P vs where
    P: "df' = df\<lparr>rows := filter P (rows df)\<rparr>" and
    vs: "ws = [Header ''Filters''] @ vs" "list_ex is_constraint vs \<or> df' = df"
    unfolding narrows_def by auto
  have "rows df' = filter P (rows df)" "columns df' = columns df" using P by simp_all
  moreover have "list_ex is_constraint sb \<or> df' = df"
    using vs unfolding sb by auto
  ultimately show ?thesis by (auto simp add: subseq_filter_left)
qed

lemma candidates_nonempty: "c \<in> set (candidates r) \<Longrightarrow> c \<noteq> []"
  by (cases r) auto

lemma resolve_Some:
  assumes "resolve df r = Some c"
  shows "c \<noteq> []" and "c \<in> set (columns df)"
proof -
  from pick_col_Some [of df "candidates r" c] assms
  obtain i where "i < length (candidates r)" "candidates r ! i = c" "c \<in> set (columns df)"
    unfolding resolve_def by blast
  then show "c \<in> set (columns df)" and "c \<noteq> []"
    using candidates_nonempty [of c r] nth_mem [of i "candidates r"] by auto
qed

lemma narrows_columns: "narrows st st' \<Longrightarrow> columns (snd st') = columns (snd st)"
  unfolding narrows_def by auto

lemma numeric_block_returns:
  assumes "col = None \<or> (\<exists>c. col = Some c \<and> c \<noteq> [] \<and> c \<in> set (columns (snd st)))"
  shows "\<exists>st'. bedroom_block parse u col st = Inr st'"
    and "\<exists>st'. energy_block parse u col st = Inr st'"
    and "\<exists>st'. transport_block parse u col st = Inr st'"
proof -
  obtain sb df where st: "st = (sb, df)" by (cases st)
  show "\<exists>st'. bedroom_block parse u col st = Inr st'"
    using assms block_unbound(2) [of col parse u st] bedroom_block_eq [of _ df parse u sb]
    unfolding st by auto
  show "\<exists>st'. energy_block parse u col st = Inr st'"
    using assms block_unbound(3) [of col parse u st] energy_block_eq [of _ df parse u sb]
    unfolding st by auto
  show "\<exists>st'. transport_block parse u col st = Inr st'"
    using assms block_unbound(4) [of col parse u st] transport_block_eq [of _ df parse u sb]
    unfolding st by auto
qed

lemma resolve_bound:
  "columns df' = columns df \<Longrightarrow>
   resolve df r = None \<or> (\<exists>c. resolve df r = Some c \<and> c \<noteq> [] \<and> c \<in> set (columns df'))"
  using resolve_Some [of df r] by (cases "resolve df r") auto

lemma sidebar_filters_returns:
  assumes "\<And>c. resolve df Area = Some c \<Longrightarrow>
             list_all is_num (dropna_cells (map (\<lambda>r. cell_of r c) (rows df))) \<or>
             list_all is_str (dropna_cells (map (\<lambda>r. cell_of r c) (rows df)))"
  shows "\<exists>sb df'. sidebar_filters parse u df = Inr (sb, df')"
proof -
  obtain st1 where 1: "area_block u (resolve df Area) ([Header ''Filters''], df) = Inr st1"
  proof (cases "resolve df Area")
    case None
    with block_unbound(1) [of "resolve df Area" u] that show ?thesis by auto
  next
    case (Some c)
    from area_block_returns [OF resolve_Some(2) [OF Some] assms [OF Some]] Some that
    show ?thesis by metis
  qed
  have c1: "columns (snd st1) = columns df"
    using narrows_columns [OF area_block_narrows [OF 1]] by simp
  obtain st2 where 2: "bedroom_block parse u (resolve df Bedrooms) st1 = Inr st2"
    using numeric_block_returns(1) [OF resolve_bound [OF c1]] by blast
  have c2: "columns (snd st2) = columns df"
    using narrows_columns [OF bedroom_block_narrows [OF 2]] c1 by simp
  obtain st3 where 3: "energy_block parse u (resolve df Energy) st2 = Inr st3"
    using numeric_block_returns(2) [OF resolve_bound [OF c2]] by blast
  have c3: "columns (snd st3) = columns df"
    using narrows_columns [OF energy_block_narrows [OF 3]] c2 by simp
  obtain st4 where 4: "transport_block parse u (resolve df Transport) st3 = Inr st4"
    using numeric_block_returns(3) [OF resolve_bound [OF c3]] by blast
  show ?thesis
    unfolding sidebar_filters_def Let_def using 1 2 3 4
    by (cases st4) simp
qed

lemma scenario_run:
  "sidebar_filters no_parse ui_beds df_scenario =
     Inr ([Header ''Filters'',
           Multiselect ''Area'' [Str ''X'', Str ''Y''] [Str ''X'', Str ''Y'']
             [Str ''X'', Str ''Y''],
           SliderInt ''Bedroom range'' 2 5 (2, 5) (2, 3),
           Markdown ''---'',
           Metric ''Rows after filters'' ''1'',
           DownloadButton (down_arrow @ '' Download filtered data (CSV)'')
             (df_scenario\<lparr>rows := [rows df_scenario ! 0]\<rparr>) ''milan_filtered.csv'' ''text/csv''],
          df_scenario\<lparr>rows := [rows df_scenario ! 0]\<rparr>)"
proof -
  have r: "resolve df_scenario Area = Some ''Area''" "resolve df_scenario Bedrooms = Some ''Bedroom''"
    "resolve df_scenario Energy = None" "resolve df_scenario Transport = None"
    by (simp_all add: resolve_def df_scenario_def)
  have cs: "''Area'' \<in> set (columns df_scenario)" "''Bedroom'' \<in> set (columns df_scenario)"
    by (simp_all add: df_scenario_def)
  have s: "py_sorted (unique (dropna_cells (map (\<lambda>r. cell_of r ''Area'') (rows df_scenario)))) =
           Inr [Str ''X'', Str ''Y'']"
    by (simp add: py_sorted_def unique_def dropna_cells_def df_scenario_def cell_of_def)
  have f: "filter (\<lambda>r. cell_of r ''Area'' = Str ''X'' \<or> cell_of r ''Area'' = Str ''Y'')
             (rows df_scenario) = rows df_scenario"
    by (simp add: df_scenario_def cell_of_def)
  have a: "area_block ui_beds (Some ''Area'') ([Header ''Filters''], df_scenario) =
     Inr ([Header ''Filters'',
           Multiselect ''Area'' [Str ''X'', Str ''Y''] [Str ''X'', Str ''Y''] [Str ''X'', Str ''Y'']],
          df_scenario)"
    by (simp add: area_block_eq [OF _ cs(1)] s ui_beds_def f)
  have nv: "numeric_values no_parse df_scenario ''Bedroom'' = [2, 5]"
    by (simp add: numeric_values_def df_scenario_def cell_of_def List.map_filter_simps)
  have g: "filter (passes no_parse ''Bedroom'' 2 3) (rows df_scenario) = [rows df_scenario ! 0]"
    by (simp add: df_scenario_def cell_of_def passes_def)
  have b: "bedroom_block no_parse ui_beds (Some ''Bedroom'')
       ([Header ''Filters'',
           Multiselect ''Area'' [Str ''X'', Str ''Y''] [Str ''X'', Str ''Y''] [Str ''X'', Str ''Y'']],
          df_scenario) =
     Inr ([Header ''Filters'',
           Multiselect ''Area'' [Str ''X'', Str ''Y''] [Str ''X'', Str ''Y''] [Str ''X'', Str ''Y''],
           SliderInt ''Bedroom range'' 2 5 (2, 5) (2, 3)],
          df_scenario\<lparr>rows := [rows df_scenario ! 0]\<rparr>)"
    by (simp add: bedroom_block_eq [OF _ cs(2)] nv py_int_def ui_beds_def g)
  have m: "format_count (Suc 0) = ''1''"
    by (simp add: format_count_def digits.simps group3.simps digit_char_def)
  show ?thesis
    by (simp add: sidebar_filters_def Let_def r a b energy_block_def transport_block_def m)
qed

theorem filtered_view_subsequence_witness:
  "sidebar_filters no_parse ui_beds df_scenario =
     Inr ([Header ''Filters'',
           Multiselect ''Area'' [Str ''X'', Str ''Y''] [Str ''X'', Str ''Y'']
             [Str ''X'', Str ''Y''],
           SliderInt ''Bedroom range'' 2 5 (2, 5) (2, 3),
           Markdown ''---'',
           Metric ''Rows after filters'' ''1'',
           DownloadButton (down_arrow @ '' Download filtered data (CSV)'')
             (df_scenario\<lparr>rows := [rows df_scenario ! 0]\<rparr>) ''milan_filtered.csv'' ''text/csv''],
          df_scenario\<lparr>rows := [rows df_scenario ! 0]\<rparr>) \<and>
   subseq [rows df_scenario ! 0] (rows df_scenario) \<and>
   (\<exists>sb. sidebar_filters no_parse ui_clear df_flat = Inr (sb, df_flat))"
proof -
  note t = filtered_view_subsequence [OF scenario_run]
  from t have 1: "subseq [rows df_scenario ! 0] (rows df_scenario)" by simp
  have r: "resolve df_flat Area = None" "resolve df_flat Bedrooms = None"
    "resolve df_flat Energy = None" "resolve df_flat Transport = None"
    by (simp_all add: resolve_def df_flat_def)
  obtain sb df' where run: "sidebar_filters no_parse ui_clear df_flat = Inr (sb, df')"
    using sidebar_filters_returns [of df_flat no_parse ui_clear] r(1) by auto
  then have "\<not> list_ex is_constraint sb"
    unfolding sidebar_filters_def Let_def r
    by (auto simp: area_block_def bedroom_block_def energy_block_def transport_block_def)
  with filtered_view_subsequence [OF run] have "df' = df_flat" by simp
  with run 1 scenario_run show ?thesis by blast
qed

section \<open>Properties of the page\<close>

lemma path_join_inject: "path_join a x = path_join a y \<longleftrightarrow> x = y"
  by (simp add: path_join_def)

lemmas paths_def = DATA_PATH_def MAP_HTML_PATH_def METRICS_JSON_PATH_def
  SHAP_SUMMARY_BAR_PNG_def SHAP_BEESWARM_PNG_def SHAP_DEP_TRANSPORT_PNG_def

lemma other_paths:
  "DATA_PATH e \<noteq> METRICS_JSON_PATH e" "MAP_HTML_PATH e \<noteq> METRICS_JSON_PATH e"
  "SHAP_SUMMARY_BAR_PNG e \<noteq> METRICS_JSON_PATH e" "SHAP_BEESWARM_PNG e \<noteq> METRICS_JSON_PATH e"
  "SHAP_DEP_TRANSPORT_PNG e \<noteq> METRICS_JSON_PATH e"
  by (simp_all add: paths_def path_join_inject)

lemma with_metrics_paths:
  "DATA_PATH (with_metrics e b j) = DATA_PATH e"
  "MAP_HTML_PATH (with_metrics e b j) = MAP_HTML_PATH e"
  "METRICS_JSON_PATH (with_metrics e b j) = METRICS_JSON_PATH e"
  "SHAP_SUMMARY_BAR_PNG (with_metrics e b j) = SHAP_SUMMARY_BAR_PNG e"
  "SHAP_BEESWARM_PNG (with_metrics e b j) = SHAP_BEESWARM_PNG e"
  "SHAP_DEP_TRANSPORT_PNG (with_metrics e b j) = SHAP_DEP_TRANSPORT_PNG e"
  by (simp_all add: paths_def with_metrics_def)

lemma with_metrics_exists:
  "p \<noteq> METRICS_JSON_PATH e \<Longrightarrow> exists_file (with_metrics e b j) p = exists_file e p"
  by (simp add: exists_file_def with_metrics_def)

lemma with_metrics_fields:
  "load_data (with_metrics e b j) = load_data e"
  "parse_numeric (with_metrics e b j) = parse_numeric e"
  "read_text (with_metrics e b j) = read_text e"
  "series_mean (with_metrics e b j) = series_mean e"
  "series_median (with_metrics e b j) = series_median e"
  by (simp_all add: with_metrics_def load_data_def fun_eq_iff)

lemma explore_tab_with_metrics: "explore_tab (with_metrics e b j) df f = explore_tab e df f"
  unfolding explore_tab_def with_metrics_paths with_metrics_fields
    with_metrics_exists [OF other_paths(2)] ..

lemma shap_section_with_metrics: "shap_section (with_metrics e b j) = shap_section e"
  by (simp add: shap_section_def shap_image_def with_metrics_paths
      with_metrics_exists [OF other_paths(3)] with_metrics_exists [OF other_paths(4)]
      with_metrics_exists [OF other_paths(5)])

lemma app_Stopped:
  "\<not> exists_file e (DATA_PATH e) \<Longrightarrow>
     app e u = Stopped (page_top @
       [(Page, ErrorMsg (cross_mark @ '' data file not found: '' @ DATA_PATH e))])"
  by (simp add: app_def)

lemma app_Rendered:
  assumes "app e u = Rendered sb body"
  shows "\<exists>df filtered explore.
           exists_file e (DATA_PATH e) \<and>
           load_data e (DATA_PATH e) = Inr df \<and>
           sidebar_filters (parse_numeric e) u df = Inr (sb, filtered) \<and>
           explore_tab e df filtered = Inr explore \<and>
           body = (page_top @
                   [(Page, Tabs [bar_chart_sign @ '' Explore'', robot @ '' Model'',
                                 info_sign @ '' About''])] @
                   explore @
                   [(TabModel, Subheader (robot @ '' Model results (XGBoost)'')),
                    (TabModel, Columns [1, 1, 1])]) @
                  model_metrics e @
                  (shap_section e @ [(TabAbout, MarkdownE about_text)])"
  using assms unfolding app_def
  by (auto split: if_splits sum.splits prod.splits)

lemma app_with_metrics:
  assumes "app e u = Rendered sb body"
  shows "\<exists>pre post. body = pre @ model_metrics e @ post \<and>
           app (with_metrics e b j) u =
             Rendered sb (pre @ model_metrics (with_metrics e b j) @ post)"
proof -
  from app_Rendered [OF assms] obtain df filtered explore where
    d: "exists_file e (DATA_PATH e)" "load_data e (DATA_PATH e) = Inr df"
       "sidebar_filters (parse_numeric e) u df = Inr (sb, filtered)"
       "explore_tab e df filtered = Inr explore" and
    body: "body = (page_top @
                   [(Page, Tabs [bar_chart_sign @ '' Explore'', robot @ '' Model'',
                                 info_sign @ '' About''])] @
                   explore @
                   [(TabModel, Subheader (robot @ '' Model results (XGBoost)'')),
                    (TabModel, Columns [1, 1, 1])]) @
                  model_metrics e @
                  (shap_section e @ [(TabAbout, MarkdownE about_text)])"
    by blast
  have "app (with_metrics e b j) u =
     Rendered sb ((page_top @
                   [(Page, Tabs [bar_chart_sign @ '' Explore'', robot @ '' Model'',
                                 info_sign @ '' About''])] @
                   explore @
                   [(TabModel, Subheader (robot @ '' Model results (XGBoost)'')),
                    (TabModel, Columns [1, 1, 1])]) @
                  model_metrics (with_metrics e b j) @
                  (shap_section e @ [(TabAbout, MarkdownE about_text)]))"
    using d
    by (simp add: app_def with_metrics_paths with_metrics_fields
        with_metrics_exists [OF other_paths(1)] explore_tab_with_metrics
        shap_section_with_metrics)
  with body show ?thesis by blast
qed

lemma read_metrics_load_fails:
  "load_json e (METRICS_JSON_PATH e) = Inl err \<Longrightarrow> read_metrics e = Inl err"
  by (simp add: read_metrics_def)

text \<open>
  C8. When the data file is absent, the run halts after the page top with one error
  message, and nothing else is rendered.  When the metrics file is absent, or is there
  but cannot be read as the three metrics, each of the three metric KPIs (RMSE, MAE, R
  squared) shows the em-dash, followed by a message: an info when the file is absent, a
  warning with the text of the exception otherwise.  The rest of the page does not
  depend on the metrics file: with any other state of that file the run renders the same
  sidebar and the same page around the metrics block.
\<close>

theorem missing_files_policy:
  "(\<not> exists_file e (DATA_PATH e) \<longrightarrow>
      app e u = Stopped (page_top @
        [(Page, ErrorMsg (cross_mark @ '' data file not found: '' @ DATA_PATH e))])) \<and>
   (\<not> exists_file e (METRICS_JSON_PATH e) \<longrightarrow>
      model_metrics e =
        [(MetricCol 1, MetricE ''RMSE'' em_dash),
         (MetricCol 2, MetricE ''MAE'' em_dash),
         (MetricCol 3, MetricE (''R'' @ superscript_two) em_dash),
         (TabModel, Info ''Create model_metrics.json in your notebook to show metrics here.'')]) \<and>
   (\<forall>err. exists_file e (METRICS_JSON_PATH e) \<and>
      (load_json e (METRICS_JSON_PATH e) = Inl err \<or> read_metrics e = Inl err) \<longrightarrow>
      model_metrics e =
        [(MetricCol 1, MetricE ''RMSE'' em_dash),
         (MetricCol 2, MetricE ''MAE'' em_dash),
         (MetricCol 3, MetricE (''R'' @ superscript_two) em_dash),
         (TabModel, Warning (''Couldn't read model_metrics.json: '' @ exc_str e err))]) \<and>
   (\<forall>sb body b j. app e u = Rendered sb body \<longrightarrow>
      (\<exists>pre post. body = pre @ model_metrics e @ post \<and>
         app (e\<lparr>isfile := (isfile e)(METRICS_JSON_PATH e := b), load_json := j\<rparr>) u =
           Rendered sb
             (pre @
              model_metrics (e\<lparr>isfile := (isfile e)(METRICS_JSON_PATH e := b), load_json := j\<rparr>) @
              post)))"
proof (intro conjI)
  show "\<not> exists_file e (DATA_PATH e) \<longrightarrow>
      app e u = Stopped (page_top @
        [(Page, ErrorMsg (cross_mark @ '' data file not found: '' @ DATA_PATH e))])"
    by (simp add: app_Stopped)
  show "\<not> exists_file e (METRICS_JSON_PATH e) \<longrightarrow>
      model_metrics e =
        [(MetricCol 1, MetricE ''RMSE'' em_dash),
         (MetricCol 2, MetricE ''MAE'' em_dash),
         (MetricCol 3, MetricE (''R'' @ superscript_two) em_dash),
         (TabModel, Info ''Create model_metrics.json in your notebook to show metrics here.'')]"
    by (simp add: model_metrics_def no_metrics_def)
  show "\<forall>err. exists_file e (METRICS_JSON_PATH e) \<and>
      (load_json e (METRICS_JSON_PATH e) = Inl err \<or> read_metrics e = Inl err) \<longrightarrow>
      model_metrics e =
        [(MetricCol 1, MetricE ''RMSE'' em_dash),
         (MetricCol 2, MetricE ''MAE'' em_dash),
         (MetricCol 3, MetricE (''R'' @ superscript_two) em_dash),
         (TabModel, Warning (''Couldn't read model_metrics.json: '' @ exc_str e err))]"
    using read_metrics_load_fails [of e]
    by (auto simp add: model_metrics_def no_metrics_def)
  show "\<forall>sb body b j. app e u = Rendered sb body \<longrightarrow>
      (\<exists>pre post. body = pre @ model_metrics e @ post \<and>
         app (e\<lparr>isfile := (isfile e)(METRICS_JSON_PATH e := b), load_json := j\<rparr>) u =
           Rendered sb
             (pre @
              model_metrics (e\<lparr>isfile := (isfile e)(METRICS_JSON_PATH e := b), load_json := j\<rparr>) @
              post))"
    using app_with_metrics [of e u] unfolding with_metrics_def by blast
qed

lemma safe_stat_Inr:
  "\<exists>s. safe_mean parse mean df col = Inr s" "\<exists>s. safe_median parse median df col = Inr s"
  by (auto simp: safe_mean_def safe_median_def getitem_def Let_def split: option.splits)

lemma explore_tab_returns:
  assumes "\<not> exists_file e (MAP_HTML_PATH e) \<or> (\<exists>h. read_text e (MAP_HTML_PATH e) = Inr h)"
  shows "\<exists>ex. explore_tab e df f = Inr ex"
proof -
  obtain s1 s2 s3 where s:
    "safe_median (parse_numeric e) (series_median e) f (resolve df Price) = Inr s1"
    "safe_median (parse_numeric e) (series_median e) f (resolve df PricePerArea) = Inr s2"
    "safe_mean (parse_numeric e) (series_mean e) f (resolve df LnPrice) = Inr s3"
    using safe_stat_Inr by metis
  from assms obtain m where m:
    "(if exists_file e (MAP_HTML_PATH e) then
        (case read_text e (MAP_HTML_PATH e) of
           Inl err \<Rightarrow> Inl err
         | Inr map_html \<Rightarrow>
             Inr [(RightCol, Html map_html 560 True),
                  (RightCol, Caption ''Map rendered from milan_area_map_lnprice.html'')])
      else Inr [(RightCol, Warning ''Map file not found: milan_area_map_lnprice.html'')]) = Inr m"
    by (cases "exists_file e (MAP_HTML_PATH e)") auto
  show ?thesis
    unfolding explore_tab_def Let_def s m
    by (auto simp add: getitem_def split: option.splits)
qed

theorem missing_files_policy_witness:
  "app env_empty ui_beds =
     Stopped (page_top @
       [(Page, ErrorMsg (cross_mark @ '' data file not found: /app/data_final.xlsx''))]) \<and>
   model_metrics env_data_only =
     [(MetricCol 1, MetricE ''RMSE'' em_dash),
      (MetricCol 2, MetricE ''MAE'' em_dash),
      (MetricCol 3, MetricE (''R'' @ superscript_two) em_dash),
      (TabModel, Info ''Create model_metrics.json in your notebook to show metrics here.'')] \<and>
   model_metrics env_bad_metrics =
     [(MetricCol 1, MetricE ''RMSE'' em_dash),
      (MetricCol 2, MetricE ''MAE'' em_dash),
      (MetricCol 3, MetricE (''R'' @ superscript_two) em_dash),
      (TabModel, Warning ''Couldn't read model_metrics.json: unreadable'')] \<and>
   (\<exists>sb pre post.
      app env_data_only ui_beds = Rendered sb (pre @ model_metrics env_data_only @ post) \<and>
      app env_bad_metrics ui_beds = Rendered sb (pre @ model_metrics env_bad_metrics @ post))"
proof -
  note pol = missing_files_policy
  have p: "DATA_PATH env_data_only = ''/app/data_final.xlsx''"
    "METRICS_JSON_PATH env_data_only = ''/app/model_metrics.json''"
    "MAP_HTML_PATH env_data_only = ''/app/milan_area_map_lnprice.html''"
    by (simp_all add: paths_def path_join_def env_data_only_def)
  have pe: "DATA_PATH env_empty = ''/app/data_final.xlsx''"
    by (simp add: paths_def path_join_def env_data_only_def env_empty_def)
  have pb: "METRICS_JSON_PATH env_bad_metrics = ''/app/model_metrics.json''"
    by (simp add: paths_def path_join_def env_data_only_def env_bad_metrics_def)
  have "\<not> exists_file env_empty (DATA_PATH env_empty)"
    by (simp add: exists_file_def env_empty_def)
  with pol [of env_empty ui_beds, THEN conjunct1] have 1: "app env_empty ui_beds =
     Stopped (page_top @
       [(Page, ErrorMsg (cross_mark @ '' data file not found: /app/data_final.xlsx''))])"
    by (simp add: pe)
  have "\<not> exists_file env_data_only (METRICS_JSON_PATH env_data_only)"
    unfolding p by (simp add: exists_file_def env_data_only_def)
  with pol [of env_data_only ui_beds, THEN conjunct2, THEN conjunct1] have 2: "model_metrics env_data_only =
     [(MetricCol 1, MetricE ''RMSE'' em_dash),
      (MetricCol 2, MetricE ''MAE'' em_dash),
      (MetricCol 3, MetricE (''R'' @ superscript_two) em_dash),
      (TabModel, Info ''Create model_metrics.json in your notebook to show metrics here.'')]"
    by blast
  have b1: "exists_file env_bad_metrics (METRICS_JSON_PATH env_bad_metrics)"
    unfolding pb by (simp add: exists_file_def env_bad_metrics_def p)
  have b2: "read_metrics env_bad_metrics = Inl ValueError"
    by (simp add: read_metrics_def metric_value_def env_bad_metrics_def env_data_only_def
        no_parse_def)
  have b3: "exc_str env_bad_metrics ValueError = ''unreadable''"
    by (simp add: env_bad_metrics_def env_data_only_def)
  from pol [of env_bad_metrics ui_beds, THEN conjunct2, THEN conjunct2, THEN conjunct1] b1 b2
  have "model_metrics env_bad_metrics =
     [(MetricCol 1, MetricE ''RMSE'' em_dash),
      (MetricCol 2, MetricE ''MAE'' em_dash),
      (MetricCol 3, MetricE (''R'' @ superscript_two) em_dash),
      (TabModel, Warning (''Couldn't read model_metrics.json: '' @ exc_str env_bad_metrics ValueError))]"
    by blast
  then have 3: "model_metrics env_bad_metrics =
     [(MetricCol 1, MetricE ''RMSE'' em_dash),
      (MetricCol 2, MetricE ''MAE'' em_dash),
      (MetricCol 3, MetricE (''R'' @ superscript_two) em_dash),
      (TabModel, Warning ''Couldn't read model_metrics.json: unreadable'')]"
    unfolding b3 by simp
  have "\<not> exists_file env_data_only (MAP_HTML_PATH env_data_only)"
    unfolding p by (simp add: exists_file_def env_data_only_def)
  with explore_tab_returns [of env_data_only df_scenario "df_scenario\<lparr>rows := [rows df_scenario ! 0]\<rparr>"]
  obtain ex where ex: "explore_tab env_data_only df_scenario
       (df_scenario\<lparr>rows := [rows df_scenario ! 0]\<rparr>) = Inr ex"
    by blast
  have d: "exists_file env_data_only (DATA_PATH env_data_only)"
    "load_data env_data_only (DATA_PATH env_data_only) = Inr df_scenario"
    "parse_numeric env_data_only = no_parse"
    unfolding p by (simp_all add: exists_file_def load_data_def env_data_only_def)
  obtain sb body where run: "app env_data_only ui_beds = Rendered sb body"
    by (simp add: app_def d scenario_run ex)
  from pol [of env_data_only ui_beds, THEN conjunct2, THEN conjunct2, THEN conjunct2,
      rule_format, OF run, where b = True and j = "\<lambda>p. Inr (JObj [(''rmse'', JStr ''n/a'')])"]
  have "\<exists>pre post.
      app env_data_only ui_beds = Rendered sb (pre @ model_metrics env_data_only @ post) \<and>
      app env_bad_metrics ui_beds = Rendered sb (pre @ model_metrics env_bad_metrics @ post)"
    unfolding env_bad_metrics_def [symmetric] using run by auto
  with 1 2 3 show ?thesis by blast
qed

end
